theory Spec2Isabelle
  imports Complex_Main
begin

section \<open>Python and numpy primitives used by the generator\<close>

text \<open>
  The model follows \<^verbatim>\<open>src/utils/data_generator.py\<close>,
  \<^verbatim>\<open>src/utils/feature_engineering.py\<close> and \<^verbatim>\<open>src/server/mock_live_feed.py\<close>.
  Python floats are modelled as \<^typ>\<open>real\<close>, Python ints as \<^typ>\<open>int\<close>; every
  exception the code can raise is a value of \<open>py_error\<close>.
\<close>

datatype py_error =
    ZeroDivisionError
  | ValueError
  | KeyError string
  | OverflowError

text \<open>
  The global numpy random source. numpy is not part of the repository, so the generator
  is represented by the outcomes of its successive calls: \<open>unif g n\<close> is the unit-interval
  sample the \<open>n\<close>-th call returns when it is a call of \<^verbatim>\<open>random\<close>, \<^verbatim>\<open>uniform\<close>,
  \<^verbatim>\<open>randint\<close> or \<^verbatim>\<open>choice\<close>, \<open>gauss g n\<close> the standard normal deviate it returns when
  it is a call of \<^verbatim>\<open>normal\<close>; \<open>pos\<close> counts the calls made so far.
\<close>

record rng =
  unif :: "nat \<Rightarrow> real"
  gauss :: "nat \<Rightarrow> real"
  pos :: nat

definition advance :: "rng \<Rightarrow> rng" where
  "advance g = g\<lparr>pos := Suc (pos g)\<rparr>"

definition random_sample :: "rng \<Rightarrow> real \<times> rng" where
  "random_sample g = (unif g (pos g), advance g)"

definition uniform :: "real \<Rightarrow> real \<Rightarrow> rng \<Rightarrow> real \<times> rng" where
  "uniform low high g = (low + (high - low) * unif g (pos g), advance g)"

definition normal :: "real \<Rightarrow> real \<Rightarrow> rng \<Rightarrow> real \<times> rng" where
  "normal loc scale g = (loc + scale * gauss g (pos g), advance g)"

definition randint :: "int \<Rightarrow> int \<Rightarrow> rng \<Rightarrow> int \<times> rng" where
  "randint low high g = (low + \<lfloor>unif g (pos g) * real_of_int (high - low)\<rfloor>, advance g)"

text \<open>\<^verbatim>\<open>np.random.choice\<close> over the three severity names (an index in 0, 1, 2).\<close>

definition choice3 :: "'a \<Rightarrow> 'a \<Rightarrow> 'a \<Rightarrow> rng \<Rightarrow> 'a \<times> rng" where
  "choice3 a b c g =
     (let k = \<lfloor>unif g (pos g) * 3\<rfloor>
      in (if k \<le> 0 then a else if k = 1 then b else c, advance g))"

text \<open>The unit-interval samples of a random source lie in \<open>[0, 1)\<close>.\<close>

definition unit_draws :: "rng \<Rightarrow> bool" where
  "unit_draws g = (\<forall>n. 0 \<le> unif g n \<and> unif g n < 1)"

text \<open>\<^verbatim>\<open>np.clip(a, a_min, a_max)\<close> is \<^verbatim>\<open>minimum(a_max, maximum(a, a_min))\<close>.\<close>

definition clip :: "real \<Rightarrow> real \<Rightarrow> real \<Rightarrow> real" where
  "clip a a_min a_max = min a_max (max a a_min)"

text \<open>
  \<^verbatim>\<open>np.arange(0, stop, step)\<close> on ints has \<open>max 0 (ceiling (stop / step))\<close> elements
  \<open>0, step, 2 * step, ...\<close>. Every caller divides by \<open>step\<close> first, so \<open>step = 0\<close>
  never reaches it.
\<close>

definition arange :: "int \<Rightarrow> int \<Rightarrow> int list" where
  "arange stop step = map (\<lambda>k. int k * step) [0..<nat (- ((- stop) div step))]"

text \<open>Python's \<^verbatim>\<open>int(x)\<close> on a float truncates toward zero.\<close>

definition py_int :: "real \<Rightarrow> int" where
  "py_int x = (if 0 \<le> x then \<lfloor>x\<rfloor> else \<lceil>x\<rceil>)"

text \<open>Python's float \<^verbatim>\<open>x % y\<close> (the result takes the sign of \<open>y\<close>).\<close>

definition py_fmod :: "real \<Rightarrow> real \<Rightarrow> real" where
  "py_fmod x y = x - y * real_of_int \<lfloor>x / y\<rfloor>"

section \<open>Signal synthesizers\<close>

subsection \<open>Rectal temperature\<close>

fun temperature_loop ::
  "real \<Rightarrow> real \<Rightarrow> real \<Rightarrow> int \<Rightarrow> nat \<Rightarrow> int list \<Rightarrow> rng \<Rightarrow> real list \<times> rng" where
  "temperature_loop baseline_temp target_temp cooling_rate cooling_phase_steps i [] g = ([], g)"
| "temperature_loop baseline_temp target_temp cooling_rate cooling_phase_steps i (tp # tps) g =
     (let (current_temp, g1) =
            (if int i < cooling_phase_steps
             then (let (jitter, g') = normal 0 0.05 g
                   in (baseline_temp - (cooling_rate / 60 * real_of_int tp) + jitter, g'))
             else (let (jitter, g') = normal 0 0.15 g
                   in (target_temp + jitter, g')));
          current_temp = clip current_temp (target_temp - 0.5) (baseline_temp + 0.5);
          (rest, g2) = temperature_loop baseline_temp target_temp cooling_rate
                         cooling_phase_steps (Suc i) tps g1
      in (current_temp # rest, g2))"

definition simulate_rectal_temperature ::
  "real \<Rightarrow> real \<Rightarrow> real \<Rightarrow> real \<Rightarrow> int \<Rightarrow> int \<Rightarrow> rng
     \<Rightarrow> py_error + ((int list \<times> real list) \<times> rng)" where
  "simulate_rectal_temperature baseline_temp target_temp cooling_rate rewarming_rate
       duration_minutes time_step g =
     (if time_step = 0 then Inl ZeroDivisionError
      else
        let time_points = arange duration_minutes time_step
        in if cooling_rate / 60 = 0 then Inl ZeroDivisionError
           else
             let cooling_phase_minutes = \<bar>baseline_temp - target_temp\<bar> / (cooling_rate / 60);
                 cooling_phase_steps = py_int (cooling_phase_minutes / real_of_int time_step);
                 (temperatures, g') =
                    temperature_loop baseline_temp target_temp cooling_rate
                      cooling_phase_steps 0 time_points g
             in Inr ((time_points, temperatures), g'))"

subsection \<open>Heart rate\<close>

fun heart_rate_loop ::
  "real \<Rightarrow> real \<Rightarrow> real \<Rightarrow> int \<Rightarrow> nat \<Rightarrow> int list \<Rightarrow> rng \<Rightarrow> real list \<times> rng" where
  "heart_rate_loop baseline_hr hypothermia_effect stress_level time_step i [] g = ([], g)"
| "heart_rate_loop baseline_hr hypothermia_effect stress_level time_step i (tp # tps) g =
     (let base_hr = baseline_hr * hypothermia_effect;
          (noise, g1) = normal 0 5 g;
          stress_component =
            stress_level * sin (2 * pi * real i / (60 * 60 / real_of_int time_step));
          hr = base_hr + noise + stress_component;
          (rest, g2) = heart_rate_loop baseline_hr hypothermia_effect stress_level
                         time_step (Suc i) tps g1
      in (clip hr 80 180 # rest, g2))"

definition generate_heart_rate_data ::
  "real \<Rightarrow> int \<Rightarrow> int \<Rightarrow> real \<Rightarrow> rng \<Rightarrow> py_error + ((int list \<times> real list) \<times> rng)" where
  "generate_heart_rate_data baseline_hr duration_minutes time_step stress_level g =
     (if time_step = 0 then Inl ZeroDivisionError
      else
        let time_points = arange duration_minutes time_step;
            (hypothermia_effect, g1) = uniform 0.85 0.95 g;
            (heart_rates, g2) =
               heart_rate_loop baseline_hr hypothermia_effect stress_level time_step 0
                 time_points g1
        in Inr ((time_points, heart_rates), g2))"

subsection \<open>Blood pressure\<close>

fun blood_pressure_loop ::
  "real \<Rightarrow> real \<Rightarrow> int \<Rightarrow> nat \<Rightarrow> int list \<Rightarrow> rng \<Rightarrow> (real list \<times> real list) \<times> rng" where
  "blood_pressure_loop baseline_systolic baseline_diastolic time_step i [] g = (([], []), g)"
| "blood_pressure_loop baseline_systolic baseline_diastolic time_step i (tp # tps) g =
     (let trend = 0.95 + 0.1 * sin (2 * pi * real i / (120 * 60 / real_of_int time_step));
          (sys_noise, g1) = normal 0 3 g;
          sys_bp = baseline_systolic * trend + sys_noise;
          (dia_noise, g2) = normal 0 2 g1;
          dia_bp = baseline_diastolic * trend + dia_noise;
          ((sys_rest, dia_rest), g3) =
             blood_pressure_loop baseline_systolic baseline_diastolic time_step (Suc i) tps g2
      in ((clip sys_bp 40 80 # sys_rest, clip dia_bp 20 50 # dia_rest), g3))"

definition generate_blood_pressure_data ::
  "real \<Rightarrow> real \<Rightarrow> int \<Rightarrow> int \<Rightarrow> rng
     \<Rightarrow> py_error + ((int list \<times> real list \<times> real list) \<times> rng)" where
  "generate_blood_pressure_data baseline_systolic baseline_diastolic duration_minutes
       time_step g =
     (if time_step = 0 then Inl ZeroDivisionError
      else
        let time_points = arange duration_minutes time_step;
            ((systolic_bp, diastolic_bp), g') =
               blood_pressure_loop baseline_systolic baseline_diastolic time_step 0
                 time_points g
        in Inr ((time_points, systolic_bp, diastolic_bp), g'))"

subsection \<open>Oxygen saturation\<close>

text \<open>The test of line 211 that decides whether sample \<open>i\<close> receives a dip.\<close>

definition in_dip_window :: "int \<Rightarrow> nat \<Rightarrow> bool" where
  "in_dip_window time_step i =
     (py_fmod (real i) (20 * 60 / real_of_int time_step) < 10 * 60 / real_of_int time_step)"

fun oxygen_saturation_loop ::
  "real \<Rightarrow> int \<Rightarrow> bool \<Rightarrow> nat \<Rightarrow> int list \<Rightarrow> rng \<Rightarrow> real list \<times> rng" where
  "oxygen_saturation_loop baseline_spo2 time_step respiratory_distress i [] g = ([], g)"
| "oxygen_saturation_loop baseline_spo2 time_step respiratory_distress i (tp # tps) g =
     (let (base_spo2, g1) =
            (if respiratory_distress \<and> in_dip_window time_step i
             then (let (dip, g') = uniform 2 5 g in (baseline_spo2 - dip, g'))
             else (baseline_spo2, g));
          (noise, g2) = normal 0 0.5 g1;
          spo2 = base_spo2 + noise;
          (rest, g3) = oxygen_saturation_loop baseline_spo2 time_step respiratory_distress
                         (Suc i) tps g2
      in (clip spo2 92 100 # rest, g3))"

definition generate_oxygen_saturation_data ::
  "real \<Rightarrow> int \<Rightarrow> int \<Rightarrow> bool \<Rightarrow> rng \<Rightarrow> py_error + ((int list \<times> real list) \<times> rng)" where
  "generate_oxygen_saturation_data baseline_spo2 duration_minutes time_step
       respiratory_distress g =
     (if time_step = 0 then Inl ZeroDivisionError
      else
        let time_points = arange duration_minutes time_step;
            (spo2_values, g') =
               oxygen_saturation_loop baseline_spo2 time_step respiratory_distress 0
                 time_points g
        in Inr ((time_points, spo2_values), g'))"

subsection \<open>EEG band power with the seizure state machine\<close>

record eeg_state =
  seizure_start_minute :: "real option"
  seizure_active :: bool
  eeg_rng :: rng

text \<open>
  One iteration of the loop of \<^verbatim>\<open>generate_eeg_data\<close> at time point \<open>tp\<close>. The random
  draw of the onset test is made only while no onset is recorded (\<^verbatim>\<open>and\<close> evaluates
  its right operand only then). The divisor \<open>duration_minutes * 60\<close> is not zero whenever
  the loop has a time point to run on.
\<close>

definition eeg_step ::
  "real \<Rightarrow> int \<Rightarrow> int \<Rightarrow> eeg_state \<Rightarrow> eeg_state \<times> (real \<times> real \<times> real)" where
  "eeg_step seizure_probability duration_minutes tp st =
     (let current_minute = real_of_int tp / 60;
          (start1, g1) =
             (case seizure_start_minute st of
                None \<Rightarrow>
                  (let (u, g') = random_sample (eeg_rng st)
                   in (if u < seizure_probability / real_of_int (duration_minutes * 60)
                       then Some current_minute else None, g'))
              | Some s \<Rightarrow> (Some s, eeg_rng st));
          (start2, active2) =
             (case start1 of
                None \<Rightarrow> (None, seizure_active st)
              | Some s \<Rightarrow>
                  (let seizure_duration = 2
                   in if current_minute < s + seizure_duration then (Some s, True)
                      else (None, False)))
      in if active2
         then (let (delta, g2) = uniform 50 150 g1;
                   (theta, g3) = uniform 100 250 g2;
                   (alpha, g4) = uniform 200 400 g3
               in (\<lparr>seizure_start_minute = start2, seizure_active = active2, eeg_rng = g4\<rparr>,
                   (delta, theta, alpha)))
         else (let (delta, g2) = uniform 10 40 g1;
                   (theta, g3) = uniform 5 20 g2;
                   (alpha, g4) = uniform 2 10 g3
               in (\<lparr>seizure_start_minute = start2, seizure_active = active2, eeg_rng = g4\<rparr>,
                   (delta, theta, alpha))))"

text \<open>
  The loop, recording for every iteration the loop variables after it (the value of
  \<^verbatim>\<open>seizure_active\<close> that chose the branch of the sample) and the sample written.
\<close>

fun eeg_loop ::
  "real \<Rightarrow> int \<Rightarrow> int list \<Rightarrow> eeg_state \<Rightarrow> (eeg_state \<times> (real \<times> real \<times> real)) list" where
  "eeg_loop seizure_probability duration_minutes [] st = []"
| "eeg_loop seizure_probability duration_minutes (tp # tps) st =
     (let (st', sample) = eeg_step seizure_probability duration_minutes tp st
      in (st', sample) # eeg_loop seizure_probability duration_minutes tps st')"

definition eeg_trace ::
  "int \<Rightarrow> int \<Rightarrow> real \<Rightarrow> real option \<Rightarrow> rng \<Rightarrow> (eeg_state \<times> (real \<times> real \<times> real)) list" where
  "eeg_trace duration_minutes time_step seizure_probability start_minute g =
     eeg_loop seizure_probability duration_minutes (arange (duration_minutes * 60) time_step)
       \<lparr>seizure_start_minute = start_minute, seizure_active = False, eeg_rng = g\<rparr>"

definition generate_eeg_data ::
  "int \<Rightarrow> int \<Rightarrow> real \<Rightarrow> real option \<Rightarrow> rng
     \<Rightarrow> py_error + ((int list \<times> real list \<times> real list \<times> real list) \<times> rng)" where
  "generate_eeg_data duration_minutes time_step seizure_probability start_minute g =
     (if time_step = 0 then Inl ZeroDivisionError
      else
        let time_points = arange (duration_minutes * 60) time_step;
            trace = eeg_trace duration_minutes time_step seizure_probability start_minute g;
            delta_power = map (\<lambda>(st, (d, t, a)). d) trace;
            theta_power = map (\<lambda>(st, (d, t, a)). t) trace;
            alpha_power = map (\<lambda>(st, (d, t, a)). a) trace
        in Inr ((time_points, delta_power, theta_power, alpha_power),
                (if trace = [] then g else eeg_rng (fst (last trace)))))"

text \<open>Whether a sample lies in the ictal (seizure) or in the normal band-power ranges.\<close>

definition ictal_sample :: "real \<times> real \<times> real \<Rightarrow> bool" where
  "ictal_sample s = (case s of (d, t, a) \<Rightarrow>
     50 \<le> d \<and> d \<le> 150 \<and> 100 \<le> t \<and> t \<le> 250 \<and> 200 \<le> a \<and> a \<le> 400)"

definition normal_sample :: "real \<times> real \<times> real \<Rightarrow> bool" where
  "normal_sample s = (case s of (d, t, a) \<Rightarrow>
     10 \<le> d \<and> d \<le> 40 \<and> 5 \<le> t \<and> t \<le> 20 \<and> 2 \<le> a \<and> a \<le> 10)"

subsection \<open>Arterial blood gas\<close>

text \<open>The severity table of \<^verbatim>\<open>generate_blood_gas_data\<close>: pH, pCO2, pO2, lactate.\<close>

definition abg_baselines :: "(string \<times> (real \<times> real \<times> real \<times> real)) list" where
  "abg_baselines =
     [(''mild'', (7.35, 45, 85, 2)),
      (''moderate'', (7.30, 48, 75, 4)),
      (''severe'', (7.25, 50, 65, 8))]"

text \<open>\<^verbatim>\<open>for i in range(num_points)\<close>: \<open>i\<close> is the index, \<open>k\<close> the iterations left.\<close>

fun blood_gas_loop ::
  "real \<times> real \<times> real \<times> real \<Rightarrow> nat \<Rightarrow> nat \<Rightarrow> rng
     \<Rightarrow> (real \<times> real \<times> real \<times> real) list \<times> rng" where
  "blood_gas_loop baseline i 0 g = ([], g)"
| "blood_gas_loop baseline i (Suc k) g =
     (case baseline of (b_pH, b_pCO2, b_pO2, b_lactate) \<Rightarrow>
        let improvement_factor = 1 - (0.01 * real i);
            (u1, g1) = uniform (-0.05) 0.1 g;
            (u2, g2) = uniform (-5) 3 g1;
            (u3, g3) = uniform (-10) 15 g2;
            (u4, g4) = uniform (-0.5) 0.5 g3;
            (rest, g5) = blood_gas_loop baseline (Suc i) k g4
        in ((b_pH + u1 * improvement_factor,
             b_pCO2 + u2 * improvement_factor,
             b_pO2 + u3 * improvement_factor,
             b_lactate * (0.9 ^ i) + u4) # rest, g5))"

definition generate_blood_gas_data ::
  "int \<Rightarrow> int \<Rightarrow> string \<Rightarrow> rng
     \<Rightarrow> py_error + ((int list \<times> real list \<times> real list \<times> real list \<times> real list) \<times> rng)" where
  "generate_blood_gas_data duration_hours time_step_hours hie_severity g =
     (if time_step_hours = 0 then Inl ZeroDivisionError
      else
        let num_points = duration_hours div time_step_hours;
            time_points = arange duration_hours time_step_hours
        in if num_points < 0 then Inl ValueError
           else
             (case map_of abg_baselines hie_severity of
                None \<Rightarrow> Inl (KeyError hie_severity)
              | Some baseline \<Rightarrow>
                  (let (samples, g') = blood_gas_loop baseline 0 (nat num_points) g
                   in Inr ((time_points,
                            map (\<lambda>(a, b, c, d). a) samples,
                            map (\<lambda>(a, b, c, d). b) samples,
                            map (\<lambda>(a, b, c, d). c) samples,
                            map (\<lambda>(a, b, c, d). d) samples), g'))))"

section \<open>Baseline profile and cooling protocol\<close>

text \<open>
  The process state the generator reads and writes: numpy's global random source and the
  wall clock behind \<^verbatim>\<open>datetime.now()\<close> (its successive readings).
\<close>

record world =
  np_random :: rng
  wall_clock :: "nat \<Rightarrow> real"
  clock_reads :: nat

definition datetime_now :: "world \<Rightarrow> real \<times> world" where
  "datetime_now w = (wall_clock w (clock_reads w), w\<lparr>clock_reads := Suc (clock_reads w)\<rparr>)"

text \<open>
  \<^verbatim>\<open>__init__\<close>: \<^verbatim>\<open>np.random.seed(seed)\<close> replaces the global random source by the
  one the seed determines (\<open>seeded\<close>, numpy's seeding, a parameter of the model); numpy
  accepts seeds from \<open>0\<close> to \<open>2^32 - 1\<close>. The instance only keeps the seed.
\<close>

definition init_generator :: "(int \<Rightarrow> rng) \<Rightarrow> int \<Rightarrow> world \<Rightarrow> py_error + (int \<times> world)" where
  "init_generator seeded seed w =
     (if seed < 0 \<or> 2 ^ 32 \<le> seed then Inl ValueError
      else Inr (seed, w\<lparr>np_random := seeded seed\<rparr>))"

text \<open>The dict returned by \<^verbatim>\<open>generate_baseline_parameters\<close>; its keys are fixed.\<close>

record patient_baseline =
  patient_id :: string
  birth_weight_kg :: real
  gestational_age_weeks :: real
  birth_hour :: int
  hie_severity :: string
  baseline_heart_rate :: real
  baseline_resp_rate :: real
  baseline_systolic_bp :: real
  baseline_diastolic_bp :: real
  baseline_oxygen_sat :: real
  baseline_rectal_temp :: real
  baseline_core_temp :: real
  seizure_risk_factor :: real

definition seizure_risk_table :: "(string \<times> real) list" where
  "seizure_risk_table = [(''mild'', 0.1), (''moderate'', 0.4), (''severe'', 0.7)]"

definition generate_baseline_parameters ::
  "string \<Rightarrow> rng \<Rightarrow> py_error + (patient_baseline \<times> rng)" where
  "generate_baseline_parameters pid g =
     (let (weight, g1) = uniform 2.5 4.5 g;
          (gest, g2) = uniform 35 42 g1;
          (hour, g3) = randint 0 24 g2;
          (severity, g4) = choice3 ''mild'' ''moderate'' ''severe'' g3;
          (hr, g5) = uniform 120 160 g4;
          (resp, g6) = uniform 40 60 g5;
          (sys, g7) = uniform 50 70 g6;
          (dia, g8) = uniform 30 45 g7;
          (o2, g9) = uniform 95 100 g8;
          (rectal, g10) = uniform 36.8 37.4 g9;
          (core, g11) = uniform 36.5 37.3 g10;
          (risk_key, g12) = choice3 ''mild'' ''moderate'' ''severe'' g11
      in case map_of seizure_risk_table risk_key of
           None \<Rightarrow> Inl (KeyError risk_key)
         | Some risk \<Rightarrow>
             Inr (\<lparr>patient_id = pid, birth_weight_kg = weight, gestational_age_weeks = gest,
                   birth_hour = hour, hie_severity = severity, baseline_heart_rate = hr,
                   baseline_resp_rate = resp, baseline_systolic_bp = sys,
                   baseline_diastolic_bp = dia, baseline_oxygen_sat = o2,
                   baseline_rectal_temp = rectal, baseline_core_temp = core,
                   seizure_risk_factor = risk\<rparr>, g12))"

record cooling_protocol =
  target_temp :: real
  duration_hours :: int
  cooling_rate :: real
  rewarming_rate :: real
  baseline_temp :: real
  start_time :: real

text \<open>
  \<^verbatim>\<open>generate_cooling_protocol\<close> builds the whole table first, so all nine draws are
  made whatever the severity, and then looks the severity up.
\<close>

definition generate_cooling_protocol ::
  "string \<Rightarrow> real \<Rightarrow> world \<Rightarrow> py_error + (cooling_protocol \<times> world)" where
  "generate_cooling_protocol severity base_temp w =
     (let (mild_target, g1) = uniform 32.5 33.5 (np_random w);
          (mild_cooling, g2) = uniform 0.1 0.2 g1;
          (mild_rewarming, g3) = uniform 0.05 0.1 g2;
          (moderate_target, g4) = uniform 33.0 33.5 g3;
          (moderate_cooling, g5) = uniform 0.15 0.25 g4;
          (moderate_rewarming, g6) = uniform 0.05 0.1 g5;
          (severe_target, g7) = uniform 32.0 33.5 g6;
          (severe_cooling, g8) = uniform 0.2 0.3 g7;
          (severe_rewarming, g9) = uniform 0.05 0.08 g8;
          protocols =
            [(''mild'', (mild_target, 48, mild_cooling, mild_rewarming)),
             (''moderate'', (moderate_target, 72, moderate_cooling, moderate_rewarming)),
             (''severe'', (severe_target, 72, severe_cooling, severe_rewarming))]
      in case map_of protocols severity of
           None \<Rightarrow> Inl (KeyError severity)
         | Some (target, hours, cooling, rewarming) \<Rightarrow>
             (let (now, w') = datetime_now (w\<lparr>np_random := g9\<rparr>)
              in Inr (\<lparr>target_temp = target, duration_hours = hours, cooling_rate = cooling,
                       rewarming_rate = rewarming, baseline_temp = base_temp,
                       start_time = now\<rparr>, w')))"

section \<open>Data frames\<close>

text \<open>
  pandas is not part of the repository. A data frame is modelled as its columns in order,
  each a name and its cells; the operations below follow the documented behaviour of the
  pandas functions the generator calls. A missing value (\<^verbatim>\<open>NaN\<close>) is a cell of its own,
  so it can never be mistaken for a number.
\<close>

datatype cell = Num real | Str string | NaN

type_synonym dataframe = "(string \<times> cell list) list"

definition columns :: "dataframe \<Rightarrow> string list" where
  "columns df = map fst df"

definition nrows :: "dataframe \<Rightarrow> nat" where
  "nrows df = (case df of [] \<Rightarrow> 0 | (name, cells) # rest \<Rightarrow> length cells)"

datatype colspec = Scalar cell | Array "cell list"

text \<open>
  \<^verbatim>\<open>pd.DataFrame(dict)\<close>: arrays must agree in length (\<^verbatim>\<open>ValueError\<close> otherwise, as
  when every value is a scalar); scalars are repeated on every row.
\<close>

definition DataFrame :: "(string \<times> colspec) list \<Rightarrow> py_error + dataframe" where
  "DataFrame spec =
     (case concat (map (\<lambda>(name, c). case c of Array xs \<Rightarrow> [length xs] | Scalar v \<Rightarrow> []) spec) of
        [] \<Rightarrow> Inl ValueError
      | n # ns \<Rightarrow>
          if list_all (\<lambda>m. m = n) ns
          then Inr (map (\<lambda>(name, c).
                 (name, case c of Array xs \<Rightarrow> xs | Scalar v \<Rightarrow> replicate n v)) spec)
          else Inl ValueError)"

definition get_column :: "dataframe \<Rightarrow> string \<Rightarrow> py_error + cell list" where
  "get_column df name = (case map_of df name of None \<Rightarrow> Inl (KeyError name) | Some cells \<Rightarrow> Inr cells)"

text \<open>\<^verbatim>\<open>df[name] = cells\<close>: replaces the column in place, or appends a new one.\<close>

definition set_column :: "dataframe \<Rightarrow> string \<Rightarrow> cell list \<Rightarrow> dataframe" where
  "set_column df name cells =
     (if name \<in> set (columns df)
      then map (\<lambda>(n, old). if n = name then (n, cells) else (n, old)) df
      else df @ [(name, cells)])"

text \<open>
  \<^verbatim>\<open>left.merge(right, left_on=..., right_on=..., how='left')\<close>. Every left row is kept,
  in order, once for each right row whose key equals its key, and once with missing
  right cells when there is none. A column name that occurs in both frames gets the
  suffix \<^verbatim>\<open>_x\<close> on the left and \<^verbatim>\<open>_y\<close> on the right; only when both keys have the same
  name is the right key column dropped instead.
\<close>

definition match_rows :: "cell list \<Rightarrow> cell list \<Rightarrow> (nat \<times> nat option) list" where
  "match_rows lkeys rkeys =
     concat (map (\<lambda>i.
        let js = filter (\<lambda>j. rkeys ! j = lkeys ! i) [0..<length rkeys]
        in if js = [] then [(i, None)] else map (\<lambda>j. (i, Some j)) js)
      [0..<length lkeys])"

definition merge_left :: "dataframe \<Rightarrow> dataframe \<Rightarrow> string \<Rightarrow> string \<Rightarrow> py_error + dataframe" where
  "merge_left left right left_on right_on =
     (case map_of left left_on of
        None \<Rightarrow> Inl (KeyError left_on)
      | Some lkeys \<Rightarrow>
          (case map_of right right_on of
             None \<Rightarrow> Inl (KeyError right_on)
           | Some rkeys \<Rightarrow>
               (let pairs = match_rows lkeys rkeys;
                    right' = (if left_on = right_on
                              then filter (\<lambda>(n, cells). n \<noteq> right_on) right else right);
                    lcols = map (\<lambda>(n, cells).
                              (if n \<in> set (columns right') then n @ ''_x'' else n,
                               map (\<lambda>(i, j). cells ! i) pairs)) left;
                    rcols = map (\<lambda>(n, cells).
                              (if n \<in> set (columns left) then n @ ''_y'' else n,
                               map (\<lambda>(i, j). case j of None \<Rightarrow> NaN | Some k \<Rightarrow> cells ! k) pairs))
                              right'
                in Inr (lcols @ rcols))))"

text \<open>\<^verbatim>\<open>fillna(method='ffill')\<close>: a missing cell takes the last value above it, if any.\<close>

fun ffill_from :: "cell \<Rightarrow> cell list \<Rightarrow> cell list" where
  "ffill_from last_seen [] = []"
| "ffill_from last_seen (c # cs) =
     (if c = NaN then last_seen # ffill_from last_seen cs else c # ffill_from c cs)"

definition ffill :: "cell list \<Rightarrow> cell list" where
  "ffill cells = ffill_from NaN cells"

text \<open>\<^verbatim>\<open>df[names] = df[names].fillna(method='ffill')\<close>.\<close>

definition ffill_columns :: "dataframe \<Rightarrow> string list \<Rightarrow> py_error + dataframe" where
  "ffill_columns df names =
     (case filter (\<lambda>n. n \<notin> set (columns df)) names of
        missing # rest \<Rightarrow> Inl (KeyError missing)
      | [] \<Rightarrow> Inr (map (\<lambda>(n, cells). if n \<in> set names then (n, ffill cells) else (n, cells)) df))"

definition drop_column :: "dataframe \<Rightarrow> string \<Rightarrow> py_error + dataframe" where
  "drop_column df name =
     (if name \<in> set (columns df) then Inr (filter (\<lambda>(n, cells). n \<noteq> name) df)
      else Inl (KeyError name))"

text \<open>
  \<^verbatim>\<open>pd.concat(frames, ignore_index=True)\<close>: the rows of the frames one after the other,
  over the union of their columns in order of first appearance; an empty list of frames
  is a \<^verbatim>\<open>ValueError\<close>.
\<close>

definition concat_frames :: "dataframe list \<Rightarrow> py_error + dataframe" where
  "concat_frames dfs =
     (if dfs = [] then Inl ValueError
      else Inr (map (\<lambda>name.
             (name, concat (map (\<lambda>df. case map_of df name of
                                          None \<Rightarrow> replicate (nrows df) NaN
                                        | Some cells \<Rightarrow> cells) dfs)))
             (rev (remdups (rev (concat (map columns dfs)))))))"

section \<open>Dataset assembly\<close>

text \<open>\<^verbatim>\<open>baseline_params.items()\<close>, in the insertion order of the dict literal.\<close>

definition baseline_items :: "patient_baseline \<Rightarrow> (string \<times> cell) list" where
  "baseline_items b =
     [(''patient_id'', Str (patient_id b)),
      (''birth_weight_kg'', Num (birth_weight_kg b)),
      (''gestational_age_weeks'', Num (gestational_age_weeks b)),
      (''birth_hour'', Num (real_of_int (birth_hour b))),
      (''hie_severity'', Str (hie_severity b)),
      (''baseline_heart_rate'', Num (baseline_heart_rate b)),
      (''baseline_resp_rate'', Num (baseline_resp_rate b)),
      (''baseline_systolic_bp'', Num (baseline_systolic_bp b)),
      (''baseline_diastolic_bp'', Num (baseline_diastolic_bp b)),
      (''baseline_oxygen_sat'', Num (baseline_oxygen_sat b)),
      (''baseline_rectal_temp'', Num (baseline_rectal_temp b)),
      (''baseline_core_temp'', Num (baseline_core_temp b)),
      (''seizure_risk_factor'', Num (seizure_risk_factor b))]"

text \<open>Lines 399 to 402: one constant column per baseline item but the identifier.\<close>

definition add_baseline_columns :: "dataframe \<Rightarrow> (string \<times> cell) list \<Rightarrow> dataframe" where
  "add_baseline_columns df items =
     foldl (\<lambda>d (key, v).
        if key \<noteq> ''patient_id'' then set_column d (''baseline_'' @ key) (replicate (nrows d) v)
        else d) df items"

text \<open>Lines 383 to 397: the blood-gas frame is joined onto the vitals frame and filled forward.\<close>

definition abg_columns :: "string list" where
  "abg_columns = [''pH'', ''pCO2_mmhg'', ''pO2_mmhg'', ''lactate_mmol'']"

definition align_blood_gas :: "dataframe \<Rightarrow> dataframe \<Rightarrow> py_error + dataframe" where
  "align_blood_gas df abg_df =
     (case get_column df ''time_hours'' of
        Inl e \<Rightarrow> Inl e
      | Inr hours \<Rightarrow>
          (case merge_left (set_column df ''time_hours_abg'' hours) abg_df
                  ''time_hours_abg'' ''time_hours'' of
             Inl e \<Rightarrow> Inl e
           | Inr merged \<Rightarrow>
               (case ffill_columns merged abg_columns of
                  Inl e \<Rightarrow> Inl e
                | Inr filled \<Rightarrow> drop_column filled ''time_hours_abg'')))"

text \<open>
  The values of the local variables of \<^verbatim>\<open>generate_complete_patient_dataset\<close> when it
  returns; \<open>frame\<close> is the data frame returned.
\<close>

record patient_locals =
  baseline_params :: patient_baseline
  protocol :: cooling_protocol
  time_points_vitals :: "int list"
  rectal_temps :: "real list"
  heart_rates :: "real list"
  systolic_bp :: "real list"
  diastolic_bp :: "real list"
  spo2 :: "real list"
  time_points_abg :: "int list"
  pH :: "real list"
  pco2 :: "real list"
  po2 :: "real list"
  lactate :: "real list"
  frame :: dataframe
  world_after :: world

definition complete_patient_run ::
  "string \<Rightarrow> int \<Rightarrow> int \<Rightarrow> world \<Rightarrow> py_error + patient_locals" where
  "complete_patient_run pid hours time_step_minutes w =
     (case generate_baseline_parameters pid (np_random w) of
        Inl e \<Rightarrow> Inl e
      | Inr (bp, g0) \<Rightarrow>
     (case generate_cooling_protocol (hie_severity bp) (baseline_rectal_temp bp)
             (w\<lparr>np_random := g0\<rparr>) of
        Inl e \<Rightarrow> Inl e
      | Inr (pr, w1) \<Rightarrow>
     (let duration_minutes = hours * 60 in
      case simulate_rectal_temperature (baseline_temp pr) (target_temp pr)
             (cooling_rate pr / 60) (rewarming_rate pr / 60) duration_minutes
             time_step_minutes (np_random w1) of
        Inl e \<Rightarrow> Inl e
      | Inr ((tps, temps), g1) \<Rightarrow>
     (case generate_heart_rate_data (baseline_heart_rate bp) duration_minutes
             time_step_minutes 0.5 g1 of
        Inl e \<Rightarrow> Inl e
      | Inr ((tps_hr, hrs), g2) \<Rightarrow>
     (case generate_blood_pressure_data (baseline_systolic_bp bp) (baseline_diastolic_bp bp)
             duration_minutes time_step_minutes g2 of
        Inl e \<Rightarrow> Inl e
      | Inr ((tps_bp, sys, dia), g3) \<Rightarrow>
     (case generate_oxygen_saturation_data (baseline_oxygen_sat bp) duration_minutes
             time_step_minutes (hie_severity bp = ''severe'') g3 of
        Inl e \<Rightarrow> Inl e
      | Inr ((tps_o2, sats), g4) \<Rightarrow>
     (case DataFrame
             [(''patient_id'', Scalar (Str pid)),
              (''time_minutes'', Array (map (\<lambda>t. Num (real_of_int t)) tps)),
              (''time_hours'', Array (map (\<lambda>t. Num (real_of_int t / 60)) tps)),
              (''rectal_temperature_c'', Array (map Num temps)),
              (''heart_rate_bpm'', Array (map Num hrs)),
              (''systolic_bp_mmhg'', Array (map Num sys)),
              (''diastolic_bp_mmhg'', Array (map Num dia)),
              (''oxygen_saturation_percent'', Array (map Num sats)),
              (''hie_severity'', Scalar (Str (hie_severity bp))),
              (''target_temp_c'', Scalar (Num (target_temp pr)))] of
        Inl e \<Rightarrow> Inl e
      | Inr df \<Rightarrow>
     (case generate_blood_gas_data hours 4 (hie_severity bp) g4 of
        Inl e \<Rightarrow> Inl e
      | Inr ((tps_abg, phs, pco2s, po2s, lactates), g5) \<Rightarrow>
     (case DataFrame
             [(''time_hours'', Array (map (\<lambda>t. Num (real_of_int t)) tps_abg)),
              (''pH'', Array (map Num phs)),
              (''pCO2_mmhg'', Array (map Num pco2s)),
              (''pO2_mmhg'', Array (map Num po2s)),
              (''lactate_mmol'', Array (map Num lactates))] of
        Inl e \<Rightarrow> Inl e
      | Inr abg_df \<Rightarrow>
     (case align_blood_gas df abg_df of
        Inl e \<Rightarrow> Inl e
      | Inr aligned \<Rightarrow>
          Inr \<lparr>baseline_params = bp, protocol = pr, time_points_vitals = tps,
               rectal_temps = temps, heart_rates = hrs, systolic_bp = sys,
               diastolic_bp = dia, spo2 = sats, time_points_abg = tps_abg,
               pH = phs, pco2 = pco2s, po2 = po2s, lactate = lactates,
               frame = add_baseline_columns aligned (baseline_items bp),
               world_after = w1\<lparr>np_random := g5\<rparr>\<rparr>))))))))))"

definition generate_complete_patient_dataset ::
  "string \<Rightarrow> int \<Rightarrow> int \<Rightarrow> world \<Rightarrow> py_error + (dataframe \<times> world)" where
  "generate_complete_patient_dataset pid hours time_step_minutes w =
     (case complete_patient_run pid hours time_step_minutes w of
        Inl e \<Rightarrow> Inl e
      | Inr run \<Rightarrow> Inr (frame run, world_after run))"

subsection \<open>Batches\<close>

definition digit :: "nat \<Rightarrow> char" where
  "digit d = ''0123456789'' ! (d mod 10)"

fun decimal :: "nat \<Rightarrow> string" where
  "decimal n = (if n < 10 then [digit n] else decimal (n div 10) @ [digit n])"

declare decimal.simps [simp del]

text \<open>The format \<^verbatim>\<open>f'PATIENT_{i+1:04d}'\<close>: at least four digits, padded with zeros.\<close>

definition patient_name :: "nat \<Rightarrow> string" where
  "patient_name i =
     (let ds = decimal (i + 1) in ''PATIENT_'' @ replicate (4 - length ds) (CHR ''0'') @ ds)"

text \<open>\<^verbatim>\<open>for i in range(num_patients)\<close>: \<open>i\<close> is the index, \<open>k\<close> the patients left.\<close>

fun batch_loop :: "nat \<Rightarrow> nat \<Rightarrow> int \<Rightarrow> world \<Rightarrow> py_error + (dataframe list \<times> world)" where
  "batch_loop i 0 hours w = Inr ([], w)"
| "batch_loop i (Suc k) hours w =
     (case generate_complete_patient_dataset (patient_name i) hours 5 w of
        Inl e \<Rightarrow> Inl e
      | Inr (patient_df, w1) \<Rightarrow>
          (case batch_loop (Suc i) k hours w1 of
             Inl e \<Rightarrow> Inl e
           | Inr (datasets, w2) \<Rightarrow> Inr (patient_df # datasets, w2)))"

definition generate_batch_dataset :: "int \<Rightarrow> int \<Rightarrow> world \<Rightarrow> py_error + (dataframe \<times> world)" where
  "generate_batch_dataset num_patients hours w =
     (case batch_loop 0 (nat num_patients) hours w of
        Inl e \<Rightarrow> Inl e
      | Inr (datasets, w') \<Rightarrow>
          (case concat_frames datasets of
             Inl e \<Rightarrow> Inl e
           | Inr combined_df \<Rightarrow> Inr (combined_df, w')))"

text \<open>
  One run of the batch generator on a freshly constructed instance: the constructor,
  then \<^verbatim>\<open>generate_batch_dataset\<close>; the data set is what the caller receives.
\<close>

definition fresh_batch_run ::
  "(int \<Rightarrow> rng) \<Rightarrow> int \<Rightarrow> int \<Rightarrow> int \<Rightarrow> world \<Rightarrow> py_error + dataframe" where
  "fresh_batch_run seeded seed num_patients hours w =
     (case init_generator seeded seed w of
        Inl e \<Rightarrow> Inl e
      | Inr (self_seed, w0) \<Rightarrow>
          (case generate_batch_dataset num_patients hours w0 of
             Inl e \<Rightarrow> Inl e
           | Inr (combined_df, w') \<Rightarrow> Inr combined_df))"

section \<open>The risk-engine boundary\<close>

subsection \<open>Feature matrix\<close>

definition missing_feature_message :: "string \<Rightarrow> string" where
  "missing_feature_message col =
     ''Required feature '' @ [CHR 0x27] @ col @ [CHR 0x27] @ '' not found in DataFrame''"

text \<open>The loop of \<^verbatim>\<open>build_feature_matrix\<close>: it raises at the first column that is absent.\<close>

fun require_features :: "dataframe \<Rightarrow> string list \<Rightarrow> py_error + unit" where
  "require_features df [] = Inr ()"
| "require_features df (col # cols) =
     (if col \<notin> set (columns df) then Inl (KeyError (missing_feature_message col))
      else require_features df cols)"

text \<open>
  \<^verbatim>\<open>to_numpy(dtype=float)\<close>: a number or a missing value stays, text is converted by
  Python's float parser (\<open>parse_float\<close>, a parameter) or raises \<^verbatim>\<open>ValueError\<close>.
\<close>

definition to_float :: "(string \<Rightarrow> real option) \<Rightarrow> cell \<Rightarrow> cell option" where
  "to_float parse_float c =
     (case c of
        Num x \<Rightarrow> Some (Num x)
      | NaN \<Rightarrow> Some NaN
      | Str s \<Rightarrow> (case parse_float s of None \<Rightarrow> None | Some x \<Rightarrow> Some (Num x)))"

definition build_feature_matrix ::
  "(string \<Rightarrow> real option) \<Rightarrow> dataframe \<Rightarrow> string list \<Rightarrow> py_error + cell list list" where
  "build_feature_matrix parse_float df feature_cols =
     (case require_features df feature_cols of
        Inl e \<Rightarrow> Inl e
      | Inr u \<Rightarrow>
          (let X = map (\<lambda>i. map (\<lambda>col.
                      case map_of df col of
                        None \<Rightarrow> None
                      | Some cells \<Rightarrow> to_float parse_float (cells ! i)) feature_cols)
                    [0..<nrows df]
           in if list_all (list_all (\<lambda>c. c \<noteq> None)) X
              then Inr (map (map (\<lambda>c. case c of None \<Rightarrow> NaN | Some v \<Rightarrow> v)) X)
              else Inl ValueError))"

subsection \<open>Scorecards\<close>

text \<open>
  The pickled models and feature lists that \<^verbatim>\<open>mock_live_feed.py\<close> loads at import are
  parameters. A model maps a feature vector to the value the code reads from its
  prediction, or raises.
\<close>

type_synonym model = "cell list \<Rightarrow> py_error + real"

record cds_models =
  temp_model :: model
  temp_features :: "string list"
  seizure_model :: "model option"
  sepsis_model :: "model option"
  cardiac_model :: "model option"
  renal_model :: "model option"
  prognosis_model :: model
  prognosis_features :: "string list"

type_synonym series = "(string \<times> cell) list"

text \<open>\<^verbatim>\<open>row[cols].values\<close>: a label that is absent raises \<^verbatim>\<open>KeyError\<close>.\<close>

fun series_select :: "series \<Rightarrow> string list \<Rightarrow> py_error + cell list" where
  "series_select row [] = Inr []"
| "series_select row (c # cs) =
     (case map_of row c of
        None \<Rightarrow> Inl (KeyError c)
      | Some v \<Rightarrow> (case series_select row cs of Inl e \<Rightarrow> Inl e | Inr vs \<Rightarrow> Inr (v # vs)))"

definition categorize :: "real \<Rightarrow> real \<Rightarrow> real \<Rightarrow> string" where
  "categorize prob high medium =
     (if prob \<ge> high then ''HIGH'' else if prob \<ge> medium then ''MED'' else ''LOW'')"

definition compute_temp_adjustment :: "cds_models \<Rightarrow> series \<Rightarrow> real" where
  "compute_temp_adjustment ms row =
     (let delta = (case series_select row (temp_features ms) of
                     Inl e \<Rightarrow> 0
                   | Inr xs \<Rightarrow> (case temp_model ms xs of Inl e \<Rightarrow> 0 | Inr d \<Rightarrow> d))
      in max 0 delta)"

text \<open>\<^verbatim>\<open>except Exception: return None\<close> turns every failure into \<^verbatim>\<open>None\<close>.\<close>

definition compute_event_probability :: "model option \<Rightarrow> series \<Rightarrow> string list \<Rightarrow> real option" where
  "compute_event_probability m row cols =
     (case m of
        None \<Rightarrow> None
      | Some predict_proba \<Rightarrow>
          (case series_select row cols of
             Inl e \<Rightarrow> None
           | Inr xs \<Rightarrow> (case predict_proba xs of Inl e \<Rightarrow> None | Inr prob \<Rightarrow> Some prob)))"

text \<open>\<^verbatim>\<open>prob or 0.0\<close>.\<close>

definition or_zero :: "real option \<Rightarrow> real" where
  "or_zero p = (case p of None \<Rightarrow> 0 | Some x \<Rightarrow> x)"

text \<open>\<^verbatim>\<open>round(x, 2)\<close>: to two decimals, a tie going to the even neighbour.\<close>

definition round2 :: "real \<Rightarrow> real" where
  "round2 x =
     (let y = x * 100; f = \<lfloor>y\<rfloor>; d = y - real_of_int f
      in real_of_int (if d < 1 / 2 then f else if 1 / 2 < d then f + 1
                      else if even f then f else f + 1) / 100)"

record scorecard =
  sc_patient_id :: string
  sc_timestamp :: string
  prob_seizure :: "real option"
  prob_sepsis :: "real option"
  prob_cardiac :: "real option"
  prob_renal :: "real option"
  prob_prognosis_poor_outcome :: "real option"
  risk_seizure :: string
  risk_sepsis :: string
  risk_cardiac :: string
  risk_renal :: string
  risk_prognosis :: string
  temperature_adjustment_degC :: real
  recommendations :: "string list"

definition advice :: "string \<Rightarrow> string \<Rightarrow> string \<Rightarrow> string list" where
  "advice risk when_high when_med =
     (if risk = ''HIGH'' then [when_high] else if risk = ''MED'' then [when_med] else [])"

definition build_scorecard :: "cds_models \<Rightarrow> string \<Rightarrow> string \<Rightarrow> series \<Rightarrow> scorecard" where
  "build_scorecard ms utcnow pid row =
     (let temp_delta = compute_temp_adjustment ms row;
          seizure_prob = compute_event_probability (seizure_model ms) row (prognosis_features ms);
          sepsis_prob = compute_event_probability (sepsis_model ms) row (prognosis_features ms);
          cardiac_prob = compute_event_probability (cardiac_model ms) row (prognosis_features ms);
          renal_prob = compute_event_probability (renal_model ms) row (prognosis_features ms);
          prognosis_prob =
            compute_event_probability (Some (prognosis_model ms)) row (prognosis_features ms);
          r_seizure = categorize (or_zero seizure_prob) 0.70 0.40;
          r_sepsis = categorize (or_zero sepsis_prob) 0.65 0.35;
          r_cardiac = categorize (or_zero cardiac_prob) 0.60 0.30;
          r_renal = categorize (or_zero renal_prob) 0.60 0.30;
          r_prognosis = categorize (or_zero prognosis_prob) 0.65 0.40;
          degree = [CHR 0xC2, CHR 0xB0]
      in \<lparr>sc_patient_id = pid,
          sc_timestamp = utcnow @ ''Z'',
          prob_seizure = seizure_prob,
          prob_sepsis = sepsis_prob,
          prob_cardiac = cardiac_prob,
          prob_renal = renal_prob,
          prob_prognosis_poor_outcome = prognosis_prob,
          risk_seizure = r_seizure,
          risk_sepsis = r_sepsis,
          risk_cardiac = r_cardiac,
          risk_renal = r_renal,
          risk_prognosis = r_prognosis,
          temperature_adjustment_degC = round2 temp_delta,
          recommendations =
            advice r_seizure ''Initiate continuous EEG; review antiseizure therapy.''
              ''Increase neuro checks frequency; consider EEG if symptomatic.''
            @ advice r_sepsis ''Sepsis bundle: cultures, antibiotics, fluids per protocol.''
              ''Trend lactate; monitor vitals and labs closely.''
            @ advice r_cardiac ''Cardiac consult; optimize MAP and rhythm management.''
              ''Increase telemetry vigilance; review medications impacting QT/MAP.''
            @ advice r_renal ''Renal consult; adjust nephrotoxic meds; optimize fluids.''
              ''Monitor urine output and creatinine; adjust dosing.''
            @ advice r_prognosis ''Discuss goals of care; consider advanced monitoring/support.''
              ''Ensure multidisciplinary review; reassess trajectory in 12h.''
            @ (if temp_delta \<ge> 1.0
               then [''Strongly consider temperature reduction by ~1.0'' @ degree @ ''C.'']
               else if temp_delta \<ge> 0.5
               then [''Consider temperature reduction by ~0.5'' @ degree @ ''C.'']
               else [''Maintain current temperature; continue monitoring.''])\<rparr>)"

section \<open>Sample inputs\<close>

text \<open>Random sources and process states used in the worked examples below.\<close>

definition const_rng :: "real \<Rightarrow> real \<Rightarrow> rng" where
  "const_rng u z = \<lparr>unif = (\<lambda>n. u), gauss = (\<lambda>n. z), pos = 0\<rparr>"

definition listed_rng :: "real list \<Rightarrow> rng" where
  "listed_rng us =
     \<lparr>unif = (\<lambda>n. if n < length us then us ! n else 0), gauss = (\<lambda>n. 0), pos = 0\<rparr>"

definition sample_world :: "rng \<Rightarrow> world" where
  "sample_world g = \<lparr>np_random = g, wall_clock = (\<lambda>n. real n), clock_reads = 0\<rparr>"

text \<open>The random source after \<open>k\<close> more calls.\<close>

definition skip :: "nat \<Rightarrow> rng \<Rightarrow> rng" where
  "skip k g = g\<lparr>pos := pos g + k\<rparr>"

section \<open>Notions used in the statements\<close>

text \<open>
  The cells that \<open>merge_left\<close> puts in a left and in a right column, for the key columns
  \<open>lkeys\<close> and \<open>rkeys\<close>.
\<close>

definition left_cells :: "cell list \<Rightarrow> cell list \<Rightarrow> cell list \<Rightarrow> cell list" where
  "left_cells lkeys rkeys cells = map (\<lambda>(i, j). cells ! i) (match_rows lkeys rkeys)"

definition right_cells :: "cell list \<Rightarrow> cell list \<Rightarrow> cell list \<Rightarrow> cell list" where
  "right_cells lkeys rkeys cells =
     map (\<lambda>(i, j). case j of None \<Rightarrow> NaN | Some k \<Rightarrow> cells ! k) (match_rows lkeys rkeys)"

text \<open>The samples the loop of \<^verbatim>\<open>generate_blood_gas_data\<close> writes on the 4-hour grid.\<close>

definition abg_samples :: "int \<Rightarrow> string \<Rightarrow> rng \<Rightarrow> (real \<times> real \<times> real \<times> real) list" where
  "abg_samples hours severity g =
     (case map_of abg_baselines severity of
        None \<Rightarrow> []
      | Some bl \<Rightarrow> fst (blood_gas_loop bl 0 (nat (hours div 4)) g))"

definition dataset_columns :: "string list" where
  "dataset_columns =
     [''patient_id'', ''time_minutes'', ''time_hours_x'', ''rectal_temperature_c'',
      ''heart_rate_bpm'', ''systolic_bp_mmhg'', ''diastolic_bp_mmhg'',
      ''oxygen_saturation_percent'', ''hie_severity'', ''target_temp_c'', ''time_hours_y'',
      ''pH'', ''pCO2_mmhg'', ''pO2_mmhg'', ''lactate_mmol'',
      ''baseline_birth_weight_kg'', ''baseline_gestational_age_weeks'',
      ''baseline_birth_hour'', ''baseline_hie_severity'', ''baseline_baseline_heart_rate'',
      ''baseline_baseline_resp_rate'', ''baseline_baseline_systolic_bp'',
      ''baseline_baseline_diastolic_bp'', ''baseline_baseline_oxygen_sat'',
      ''baseline_baseline_rectal_temp'', ''baseline_baseline_core_temp'',
      ''baseline_seizure_risk_factor'']"

definition cell_at :: "dataframe \<Rightarrow> string \<Rightarrow> nat \<Rightarrow> cell option" where
  "cell_at df name i =
     (case map_of df name of
        None \<Rightarrow> None
      | Some cells \<Rightarrow> if i < length cells then Some (cells ! i) else None)"

text \<open>
  The last row at or before row \<open>i\<close> whose time \<open>i * step\<close> minutes lies on the 4-hour
  grid: the row whose key the join matches last, and whose sample the fill carries to
  row \<open>i\<close>.
\<close>

fun last_on_grid :: "int \<Rightarrow> nat \<Rightarrow> nat" where
  "last_on_grid step 0 = 0"
| "last_on_grid step (Suc i) =
     (if 240 dvd int (Suc i) * step then Suc i else last_on_grid step i)"

text \<open>Sample models: every risk model predicts 0.9, the temperature model predicts 0.\<close>

definition sample_models :: cds_models where
  "sample_models =
     \<lparr>temp_model = (\<lambda>xs. Inr 0), temp_features = [''lactate''],
      seizure_model = Some (\<lambda>xs. Inr 0.9), sepsis_model = Some (\<lambda>xs. Inr 0.9),
      cardiac_model = Some (\<lambda>xs. Inr 0.9), renal_model = Some (\<lambda>xs. Inr 0.9),
      prognosis_model = (\<lambda>xs. Inr 0.9), prognosis_features = [''lactate'', ''ph'']\<rparr>"

section \<open>The random source\<close>

lemma skip_0 [simp]: "skip 0 g = g"
  by (simp add: skip_def)

lemma skip_skip: "skip j (skip k g) = skip (k + j) g"
  by (simp add: skip_def add.assoc)

lemma advance_skip: "advance g = skip 1 g"
  by (simp add: advance_def skip_def)

lemma skip_fields [simp]:
  "unif (skip k g) = unif g" "gauss (skip k g) = gauss g" "pos (skip k g) = pos g + k"
  by (simp_all add: skip_def)

lemma unit_draws_skip [simp]: "unit_draws (skip k g) = unit_draws g"
  by (simp add: unit_draws_def)

lemma snd_draws:
  "snd (uniform lo hi g) = skip 1 g" "snd (normal m sd g) = skip 1 g"
  "snd (randint a b g) = skip 1 g" "snd (choice3 x y z g) = skip 1 g"
  "snd (random_sample g) = skip 1 g"
  by (simp_all add: uniform_def normal_def randint_def choice3_def random_sample_def
      advance_skip Let_def)

lemma risk_lookup:
  "map_of seizure_risk_table (fst (choice3 ''mild'' ''moderate'' ''severe'' g))
     = Some (fst (choice3 0.1 0.4 0.7 g))"
  by (simp add: choice3_def seizure_risk_table_def Let_def)

section \<open>The synthesizers as functions of the random source\<close>

lemma temperature_loop_length:
  "length (fst (temperature_loop b t c k i tps g)) = length tps"
  by (induction tps arbitrary: i g) (simp_all add: Let_def split_def)

lemma temperature_loop_rng:
  "snd (temperature_loop b t c k i tps g) = skip (length tps) g"
  by (induction tps arbitrary: i g) (simp_all add: Let_def split_def snd_draws skip_skip)

lemma heart_rate_loop_length:
  "length (fst (heart_rate_loop b e st s i tps g)) = length tps"
  by (induction tps arbitrary: i g) (simp_all add: Let_def split_def)

lemma heart_rate_loop_rng:
  "snd (heart_rate_loop b e st s i tps g) = skip (length tps) g"
  by (induction tps arbitrary: i g) (simp_all add: Let_def split_def snd_draws skip_skip)

lemma blood_pressure_loop_length:
  "length (fst (fst (blood_pressure_loop bs bd s i tps g))) = length tps
   \<and> length (snd (fst (blood_pressure_loop bs bd s i tps g))) = length tps"
  by (induction tps arbitrary: i g) (simp_all add: Let_def split_def)

lemma blood_pressure_loop_rng:
  "snd (blood_pressure_loop bs bd s i tps g) = skip (2 * length tps) g"
  by (induction tps arbitrary: i g) (simp_all add: Let_def split_def snd_draws skip_skip)

lemma oxygen_saturation_loop_length:
  "length (fst (oxygen_saturation_loop b s rd i tps g)) = length tps"
  by (induction tps arbitrary: i g) (simp_all add: Let_def split_def)

lemma oxygen_saturation_loop_rng:
  "\<exists>k. snd (oxygen_saturation_loop b s rd i tps g) = skip k g"
proof (induction tps arbitrary: i g)
  case Nil
  show ?case by (rule exI [of _ 0]) simp
next
  case (Cons tp tps)
  let ?g1 = "snd (if rd \<and> in_dip_window s i
                  then (let (dip, g') = uniform 2 5 g in (b - dip, g')) else (b, g))"
  have "\<exists>j. ?g1 = skip j g"
    by (cases "rd \<and> in_dip_window s i")
       (auto simp: split_def snd_draws intro: exI [of _ 0] exI [of _ 1])
  then obtain j where j: "?g1 = skip j g" ..
  from Cons.IH [of "Suc i" "skip 1 ?g1"] obtain k
    where "snd (oxygen_saturation_loop b s rd (Suc i) tps (skip 1 ?g1)) = skip k (skip 1 ?g1)" ..
  then show ?case
    by (intro exI [of _ "j + 1 + k"])
       (simp add: Let_def split_def snd_draws skip_skip j add.assoc)
qed

lemma blood_gas_loop_length:
  "length (fst (blood_gas_loop bl i k g)) = k"
  by (induction k arbitrary: i g) (simp_all add: Let_def split_def)

lemma blood_gas_loop_rng:
  "snd (blood_gas_loop bl i k g) = skip (4 * k) g"
  by (induction k arbitrary: i g) (simp_all add: Let_def split_def snd_draws skip_skip)

lemma simulate_rectal_temperature_eq:
  "simulate_rectal_temperature b t c r d s g =
     (if s = 0 \<or> c = 0 then Inl ZeroDivisionError
      else Inr ((arange d s,
                 fst (temperature_loop b t c
                        (py_int (\<bar>b - t\<bar> / (c / 60) / real_of_int s)) 0 (arange d s) g)),
                skip (length (arange d s)) g))"
  by (simp add: simulate_rectal_temperature_def Let_def split_def temperature_loop_rng)

lemma generate_heart_rate_data_eq:
  "generate_heart_rate_data hr d s stress g =
     (if s = 0 then Inl ZeroDivisionError
      else Inr ((arange d s,
                 fst (heart_rate_loop hr (fst (uniform 0.85 0.95 g)) stress s 0 (arange d s)
                        (skip 1 g))),
                skip (Suc (length (arange d s))) g))"
  by (simp add: generate_heart_rate_data_def Let_def split_def heart_rate_loop_rng snd_draws
      skip_skip)

lemma generate_blood_pressure_data_eq:
  "generate_blood_pressure_data bs bd d s g =
     (if s = 0 then Inl ZeroDivisionError
      else Inr ((arange d s,
                 fst (fst (blood_pressure_loop bs bd s 0 (arange d s) g)),
                 snd (fst (blood_pressure_loop bs bd s 0 (arange d s) g))),
                skip (2 * length (arange d s)) g))"
  by (simp add: generate_blood_pressure_data_def Let_def split_def blood_pressure_loop_rng)

lemma generate_oxygen_saturation_data_eq:
  "generate_oxygen_saturation_data b d s rd g =
     (if s = 0 then Inl ZeroDivisionError
      else Inr ((arange d s, fst (oxygen_saturation_loop b s rd 0 (arange d s) g)),
                snd (oxygen_saturation_loop b s rd 0 (arange d s) g)))"
  by (simp add: generate_oxygen_saturation_data_def Let_def split_def)

lemma length_abg_samples:
  "severity \<in> {''mild'', ''moderate'', ''severe''} \<Longrightarrow>
   length (abg_samples hours severity g) = nat (hours div 4)"
  by (auto simp: abg_samples_def abg_baselines_def blood_gas_loop_length)

lemma generate_blood_gas_data_eq:
  "severity \<in> {''mild'', ''moderate'', ''severe''} \<Longrightarrow>
   generate_blood_gas_data hours 4 severity g =
     (if hours div 4 < 0 then Inl ValueError
      else Inr ((arange hours 4,
                 map (\<lambda>(a, b, c, d). a) (abg_samples hours severity g),
                 map (\<lambda>(a, b, c, d). b) (abg_samples hours severity g),
                 map (\<lambda>(a, b, c, d). c) (abg_samples hours severity g),
                 map (\<lambda>(a, b, c, d). d) (abg_samples hours severity g)),
                skip (4 * nat (hours div 4)) g))"
  by (auto simp: generate_blood_gas_data_def abg_samples_def abg_baselines_def Let_def split_def
      blood_gas_loop_rng)

lemma choice3_cases: "fst (choice3 a b c g) \<in> {a, b, c}"
  by (simp add: choice3_def Let_def)

lemma cooling_protocol_ok:
  assumes "severity \<in> {''mild'', ''moderate'', ''severe''}"
  shows "\<exists>pr. generate_cooling_protocol severity bt w
            = Inr (pr, w\<lparr>np_random := skip 9 (np_random w), clock_reads := Suc (clock_reads w)\<rparr>)
          \<and> baseline_temp pr = bt
          \<and> (unit_draws (np_random w) \<longrightarrow>
                0.1 \<le> cooling_rate pr \<and> 32 \<le> target_temp pr \<and> target_temp pr \<le> 33.5)"
proof -
  have u: "unit_draws (np_random w) \<longrightarrow>
             0 \<le> unif (np_random w) (pos (np_random w) + n)
           \<and> unif (np_random w) (pos (np_random w) + n) < 1" for n
    by (simp add: unit_draws_def)
  from assms consider "severity = ''mild''" | "severity = ''moderate''" | "severity = ''severe''"
    by auto
  then show ?thesis
  proof cases
    case 1
    show ?thesis
      unfolding generate_cooling_protocol_def Let_def split_def snd_draws skip_skip
        datetime_now_def 1
      using u [of 0] u [of 1]
      by (simp add: uniform_def eval_nat_numeral) linarith
  next
    case 2
    show ?thesis
      unfolding generate_cooling_protocol_def Let_def split_def snd_draws skip_skip
        datetime_now_def 2
      using u [of 3] u [of 4]
      by (simp add: uniform_def eval_nat_numeral) linarith
  next
    case 3
    show ?thesis
      unfolding generate_cooling_protocol_def Let_def split_def snd_draws skip_skip
        datetime_now_def 3
      using u [of 6] u [of 7]
      by (simp add: uniform_def eval_nat_numeral) linarith
  qed
qed

section \<open>The shape of the assembled frame\<close>

lemma DataFrame_vitals:
  assumes "length b = length a" "length c = length a" "length d = length a"
    "length e = length a" "length f = length a" "length h = length a"
  shows "DataFrame
     [(''patient_id'', Scalar p), (''time_minutes'', Array a), (''time_hours'', Array b),
      (''rectal_temperature_c'', Array c), (''heart_rate_bpm'', Array d),
      (''systolic_bp_mmhg'', Array e), (''diastolic_bp_mmhg'', Array f),
      (''oxygen_saturation_percent'', Array h), (''hie_severity'', Scalar s),
      (''target_temp_c'', Scalar t)]
   = Inr [(''patient_id'', replicate (length a) p), (''time_minutes'', a), (''time_hours'', b),
      (''rectal_temperature_c'', c), (''heart_rate_bpm'', d),
      (''systolic_bp_mmhg'', e), (''diastolic_bp_mmhg'', f),
      (''oxygen_saturation_percent'', h), (''hie_severity'', replicate (length a) s),
      (''target_temp_c'', replicate (length a) t)]"
  using assms by (simp add: DataFrame_def)

lemma DataFrame_abg:
  "DataFrame [(''time_hours'', Array k), (''pH'', Array a), (''pCO2_mmhg'', Array b),
      (''pO2_mmhg'', Array c), (''lactate_mmol'', Array d)]
   = (if length a = length k \<and> length b = length k \<and> length c = length k
         \<and> length d = length k
      then Inr [(''time_hours'', k), (''pH'', a), (''pCO2_mmhg'', b),
                (''pO2_mmhg'', c), (''lactate_mmol'', d)]
      else Inl ValueError)"
  by (auto simp add: DataFrame_def)

lemma align_blood_gas_explicit:
  "align_blood_gas
     [(''patient_id'', c0), (''time_minutes'', c1), (''time_hours'', c2),
      (''rectal_temperature_c'', c3), (''heart_rate_bpm'', c4),
      (''systolic_bp_mmhg'', c5), (''diastolic_bp_mmhg'', c6),
      (''oxygen_saturation_percent'', c7), (''hie_severity'', c8),
      (''target_temp_c'', c9)]
     [(''time_hours'', k), (''pH'', a), (''pCO2_mmhg'', b),
      (''pO2_mmhg'', c), (''lactate_mmol'', d)]
   = Inr [(''patient_id'', left_cells c2 k c0), (''time_minutes'', left_cells c2 k c1),
      (''time_hours_x'', left_cells c2 k c2),
      (''rectal_temperature_c'', left_cells c2 k c3), (''heart_rate_bpm'', left_cells c2 k c4),
      (''systolic_bp_mmhg'', left_cells c2 k c5), (''diastolic_bp_mmhg'', left_cells c2 k c6),
      (''oxygen_saturation_percent'', left_cells c2 k c7), (''hie_severity'', left_cells c2 k c8),
      (''target_temp_c'', left_cells c2 k c9),
      (''time_hours_y'', right_cells c2 k k),
      (''pH'', ffill (right_cells c2 k a)), (''pCO2_mmhg'', ffill (right_cells c2 k b)),
      (''pO2_mmhg'', ffill (right_cells c2 k c)), (''lactate_mmol'', ffill (right_cells c2 k d))]"
  by (simp add: align_blood_gas_def get_column_def set_column_def columns_def merge_left_def
      ffill_columns_def drop_column_def abg_columns_def Let_def left_cells_def right_cells_def)

lemma add_baseline_columns_explicit:
  "add_baseline_columns
     [(''patient_id'', c0), (''time_minutes'', c1), (''time_hours_x'', c2),
      (''rectal_temperature_c'', c3), (''heart_rate_bpm'', c4),
      (''systolic_bp_mmhg'', c5), (''diastolic_bp_mmhg'', c6),
      (''oxygen_saturation_percent'', c7), (''hie_severity'', c8),
      (''target_temp_c'', c9), (''time_hours_y'', c10),
      (''pH'', c11), (''pCO2_mmhg'', c12), (''pO2_mmhg'', c13), (''lactate_mmol'', c14)]
     (baseline_items b)
   = [(''patient_id'', c0), (''time_minutes'', c1), (''time_hours_x'', c2),
      (''rectal_temperature_c'', c3), (''heart_rate_bpm'', c4),
      (''systolic_bp_mmhg'', c5), (''diastolic_bp_mmhg'', c6),
      (''oxygen_saturation_percent'', c7), (''hie_severity'', c8),
      (''target_temp_c'', c9), (''time_hours_y'', c10),
      (''pH'', c11), (''pCO2_mmhg'', c12), (''pO2_mmhg'', c13), (''lactate_mmol'', c14),
      (''baseline_birth_weight_kg'', replicate (length c0) (Num (birth_weight_kg b))),
      (''baseline_gestational_age_weeks'', replicate (length c0) (Num (gestational_age_weeks b))),
      (''baseline_birth_hour'', replicate (length c0) (Num (real_of_int (birth_hour b)))),
      (''baseline_hie_severity'', replicate (length c0) (Str (hie_severity b))),
      (''baseline_baseline_heart_rate'', replicate (length c0) (Num (baseline_heart_rate b))),
      (''baseline_baseline_resp_rate'', replicate (length c0) (Num (baseline_resp_rate b))),
      (''baseline_baseline_systolic_bp'', replicate (length c0) (Num (baseline_systolic_bp b))),
      (''baseline_baseline_diastolic_bp'', replicate (length c0) (Num (baseline_diastolic_bp b))),
      (''baseline_baseline_oxygen_sat'', replicate (length c0) (Num (baseline_oxygen_sat b))),
      (''baseline_baseline_rectal_temp'', replicate (length c0) (Num (baseline_rectal_temp b))),
      (''baseline_baseline_core_temp'', replicate (length c0) (Num (baseline_core_temp b))),
      (''baseline_seizure_risk_factor'', replicate (length c0) (Num (seizure_risk_factor b)))]"
  by (simp add: add_baseline_columns_def baseline_items_def set_column_def columns_def nrows_def)

lemma run_unfold:
  fixes pid hours step w bp pr w1
  defines "tps \<equiv> arange (hours * 60) step"
  defines "g1 \<equiv> skip (length tps) (np_random w1)"
  defines "g2 \<equiv> skip (Suc (length tps)) g1"
  defines "g3 \<equiv> skip (2 * length tps) g2"
  defines "o2run \<equiv> oxygen_saturation_loop (baseline_oxygen_sat bp) step (hie_severity bp = ''severe'') 0 tps g3"
  defines "abg \<equiv> abg_samples hours (hie_severity bp) (snd o2run)"
  defines "lkeys \<equiv> map (\<lambda>t. Num (real_of_int t / 60)) tps"
    and "rkeys \<equiv> map (\<lambda>t. Num (real_of_int t)) (arange hours 4)"
  assumes bpe: "generate_baseline_parameters pid (np_random w) = Inr (bp, g0)"
    and pre: "generate_cooling_protocol (hie_severity bp) (baseline_rectal_temp bp)
                (w\<lparr>np_random := g0\<rparr>) = Inr (pr, w1)"
    and sev: "hie_severity bp \<in> {''mild'', ''moderate'', ''severe''}"
  shows "complete_patient_run pid hours step w =
     (if step = 0 \<or> cooling_rate pr = 0 then Inl ZeroDivisionError
      else if hours div 4 < 0 \<or> nat (hours div 4) \<noteq> length (arange hours 4)
      then Inl ValueError
      else Inr \<lparr>baseline_params = bp, protocol = pr, time_points_vitals = tps,
        rectal_temps = fst (temperature_loop (baseline_temp pr) (target_temp pr)
           (cooling_rate pr / 60)
           (py_int (\<bar>baseline_temp pr - target_temp pr\<bar> / (cooling_rate pr / 60 / 60)
                      / real_of_int step)) 0 tps (np_random w1)),
        heart_rates = fst (heart_rate_loop (baseline_heart_rate bp)
           (fst (uniform 0.85 0.95 g1)) 0.5 step 0 tps (skip 1 g1)),
        systolic_bp = fst (fst (blood_pressure_loop (baseline_systolic_bp bp)
           (baseline_diastolic_bp bp) step 0 tps g2)),
        diastolic_bp = snd (fst (blood_pressure_loop (baseline_systolic_bp bp)
           (baseline_diastolic_bp bp) step 0 tps g2)),
        spo2 = fst o2run,
        time_points_abg = arange hours 4,
        pH = map (\<lambda>(a, b, c, d). a) abg,
        pco2 = map (\<lambda>(a, b, c, d). b) abg,
        po2 = map (\<lambda>(a, b, c, d). c) abg,
        lactate = map (\<lambda>(a, b, c, d). d) abg,
        frame = add_baseline_columns
          [(''patient_id'', left_cells lkeys rkeys (replicate (length tps) (Str pid))),
           (''time_minutes'', left_cells lkeys rkeys (map (\<lambda>t. Num (real_of_int t)) tps)),
           (''time_hours_x'', left_cells lkeys rkeys lkeys),
           (''rectal_temperature_c'', left_cells lkeys rkeys (map Num
              (fst (temperature_loop (baseline_temp pr) (target_temp pr)
                 (cooling_rate pr / 60)
                 (py_int (\<bar>baseline_temp pr - target_temp pr\<bar> / (cooling_rate pr / 60 / 60)
                      / real_of_int step)) 0 tps (np_random w1))))),
           (''heart_rate_bpm'', left_cells lkeys rkeys (map Num
              (fst (heart_rate_loop (baseline_heart_rate bp)
                 (fst (uniform 0.85 0.95 g1)) 0.5 step 0 tps (skip 1 g1))))),
           (''systolic_bp_mmhg'', left_cells lkeys rkeys (map Num
              (fst (fst (blood_pressure_loop (baseline_systolic_bp bp)
                 (baseline_diastolic_bp bp) step 0 tps g2))))),
           (''diastolic_bp_mmhg'', left_cells lkeys rkeys (map Num
              (snd (fst (blood_pressure_loop (baseline_systolic_bp bp)
                 (baseline_diastolic_bp bp) step 0 tps g2))))),
           (''oxygen_saturation_percent'', left_cells lkeys rkeys (map Num (fst o2run))),
           (''hie_severity'', left_cells lkeys rkeys (replicate (length tps) (Str (hie_severity bp)))),
           (''target_temp_c'', left_cells lkeys rkeys
              (replicate (length tps) (Num (target_temp pr)))),
           (''time_hours_y'', right_cells lkeys rkeys rkeys),
           (''pH'', ffill (right_cells lkeys rkeys (map Num (map (\<lambda>(a, b, c, d). a) abg)))),
           (''pCO2_mmhg'', ffill (right_cells lkeys rkeys (map Num (map (\<lambda>(a, b, c, d). b) abg)))),
           (''pO2_mmhg'', ffill (right_cells lkeys rkeys (map Num (map (\<lambda>(a, b, c, d). c) abg)))),
           (''lactate_mmol'', ffill (right_cells lkeys rkeys (map Num (map (\<lambda>(a, b, c, d). d) abg))))]
          (baseline_items bp),
        world_after = w1\<lparr>np_random := skip (4 * nat (hours div 4)) (snd o2run)\<rparr>\<rparr>)"
proof -
  have len: "length (abg_samples hours (hie_severity bp) g) = nat (hours div 4)" for g
    using sev by (simp add: length_abg_samples)
  show ?thesis
    unfolding complete_patient_run_def Let_def tps_def g1_def g2_def g3_def o2run_def abg_def
      lkeys_def rkeys_def
    by (simp add: bpe pre split_def simulate_rectal_temperature_eq generate_heart_rate_data_eq
        generate_blood_pressure_data_eq generate_oxygen_saturation_data_eq
        generate_blood_gas_data_eq [OF sev] DataFrame_vitals DataFrame_abg
        align_blood_gas_explicit temperature_loop_length heart_rate_loop_length
        blood_pressure_loop_length oxygen_saturation_loop_length len)
qed

section \<open>Clinical bounds of the vital-sign series\<close>

lemma clip_bounds: "lo \<le> hi \<Longrightarrow> lo \<le> clip x lo hi \<and> clip x lo hi \<le> hi"
  by (simp add: clip_def)

lemma temperature_loop_bounds:
  "t - 0.5 \<le> b + 0.5 \<Longrightarrow> temperature_loop b t c k i tps g = (temps, g') \<Longrightarrow>
   \<forall>x\<in>set temps. t - 0.5 \<le> x \<and> x \<le> b + 0.5"
proof (induction tps arbitrary: i g temps g')
  case Nil
  then show ?case by simp
next
  case (Cons tp tps)
  then show ?case
    by (auto simp: Let_def clip_bounds split: prod.splits if_splits)
qed

lemma heart_rate_loop_bounds:
  "heart_rate_loop b e s ts i tps g = (hrs, g') \<Longrightarrow> \<forall>x\<in>set hrs. 80 \<le> x \<and> x \<le> 180"
proof (induction tps arbitrary: i g hrs g')
  case Nil
  then show ?case by simp
next
  case (Cons tp tps)
  then show ?case
    by (auto simp: Let_def clip_bounds split: prod.splits)
qed

lemma blood_pressure_loop_bounds:
  "blood_pressure_loop bs bd ts i tps g = ((sys, dia), g') \<Longrightarrow>
   (\<forall>x\<in>set sys. 40 \<le> x \<and> x \<le> 80) \<and> (\<forall>x\<in>set dia. 20 \<le> x \<and> x \<le> 50)"
proof (induction tps arbitrary: i g sys dia g')
  case Nil
  then show ?case by simp
next
  case (Cons tp tps)
  then show ?case
    by (auto simp: Let_def clip_bounds split: prod.splits)
qed

lemma oxygen_saturation_loop_bounds:
  "oxygen_saturation_loop b ts rd i tps g = (sats, g') \<Longrightarrow> \<forall>x\<in>set sats. 92 \<le> x \<and> x \<le> 100"
proof (induction tps arbitrary: i g sats g')
  case Nil
  then show ?case by simp
next
  case (Cons tp tps)
  then show ?case
    by (auto simp: Let_def clip_bounds split: prod.splits if_splits)
qed

lemma simulate_rectal_temperature_bounds:
  assumes "t - 0.5 \<le> b + 0.5"
    and "simulate_rectal_temperature b t c r d s g = Inr ((tps, temps), g')"
  shows "\<forall>x\<in>set temps. t - 0.5 \<le> x \<and> x \<le> b + 0.5"
proof -
  from assms(2) obtain k where "temperature_loop b t c k 0 (arange d s) g = (temps, g')"
    by (auto simp: simulate_rectal_temperature_def Let_def split: if_splits prod.splits)
  with assms(1) show ?thesis
    by (rule temperature_loop_bounds)
qed

lemma generate_heart_rate_data_bounds:
  assumes "generate_heart_rate_data hr d s stress g = Inr ((tps, hrs), g')"
  shows "\<forall>x\<in>set hrs. 80 \<le> x \<and> x \<le> 180"
proof -
  from assms obtain e g1 where "heart_rate_loop hr e stress s 0 (arange d s) g1 = (hrs, g')"
    by (auto simp: generate_heart_rate_data_def Let_def split: if_splits prod.splits)
  then show ?thesis
    by (rule heart_rate_loop_bounds)
qed

lemma generate_blood_pressure_data_bounds:
  assumes "generate_blood_pressure_data bs bd d s g = Inr ((tps, sys, dia), g')"
  shows "(\<forall>x\<in>set sys. 40 \<le> x \<and> x \<le> 80) \<and> (\<forall>x\<in>set dia. 20 \<le> x \<and> x \<le> 50)"
proof -
  from assms have "blood_pressure_loop bs bd s 0 (arange d s) g = ((sys, dia), g')"
    by (auto simp: generate_blood_pressure_data_def Let_def split: if_splits prod.splits)
  then show ?thesis
    by (rule blood_pressure_loop_bounds)
qed

lemma generate_oxygen_saturation_data_bounds:
  assumes "generate_oxygen_saturation_data o2 d s rd g = Inr ((tps, sats), g')"
  shows "\<forall>x\<in>set sats. 92 \<le> x \<and> x \<le> 100"
proof -
  from assms have "oxygen_saturation_loop o2 s rd 0 (arange d s) g = (sats, g')"
    by (auto simp: generate_oxygen_saturation_data_def Let_def split: if_splits prod.splits)
  then show ?thesis
    by (rule oxygen_saturation_loop_bounds)
qed

text \<open>
  Claim C1, as amended. Every temperature sample that \<^verbatim>\<open>simulate_rectal_temperature\<close>
  returns lies in \<open>[target_temp - 0.5, baseline_temp + 0.5]\<close> whenever that interval is not
  empty (\<open>target_temp - 0.5 \<le> baseline_temp + 0.5\<close>), whatever the cooling rate, the duration,
  the time step and the random source; every heart-rate sample lies in \<open>[80, 180]\<close>, every
  systolic sample in \<open>[40, 80]\<close>, every diastolic sample in \<open>[20, 50]\<close> and every SpO2 sample
  in \<open>[92, 100]\<close>, for all inputs.
\<close>

theorem samples_within_clinical_bounds:
  "(t - 0.5 \<le> b + 0.5 \<longrightarrow>
      simulate_rectal_temperature b t c r d s g = Inr ((tps1, temps), g1) \<longrightarrow>
      (\<forall>x\<in>set temps. t - 0.5 \<le> x \<and> x \<le> b + 0.5))
   \<and> (generate_heart_rate_data hr d s stress g = Inr ((tps2, hrs), g2) \<longrightarrow>
      (\<forall>x\<in>set hrs. 80 \<le> x \<and> x \<le> 180))
   \<and> (generate_blood_pressure_data bs bd d s g = Inr ((tps3, sys, dia), g3) \<longrightarrow>
      (\<forall>x\<in>set sys. 40 \<le> x \<and> x \<le> 80) \<and> (\<forall>x\<in>set dia. 20 \<le> x \<and> x \<le> 50))
   \<and> (generate_oxygen_saturation_data o2 d s rd g = Inr ((tps4, sats), g4) \<longrightarrow>
      (\<forall>x\<in>set sats. 92 \<le> x \<and> x \<le> 100))"
proof (intro conjI impI)
  assume "t - 0.5 \<le> b + 0.5"
    and "simulate_rectal_temperature b t c r d s g = Inr ((tps1, temps), g1)"
  then show "\<forall>x\<in>set temps. t - 0.5 \<le> x \<and> x \<le> b + 0.5"
    by (rule simulate_rectal_temperature_bounds)
next
  assume "generate_heart_rate_data hr d s stress g = Inr ((tps2, hrs), g2)"
  then show "\<forall>x\<in>set hrs. 80 \<le> x \<and> x \<le> 180"
    by (rule generate_heart_rate_data_bounds)
next
  assume bp: "generate_blood_pressure_data bs bd d s g = Inr ((tps3, sys, dia), g3)"
  show "\<forall>x\<in>set sys. 40 \<le> x \<and> x \<le> 80"
    using generate_blood_pressure_data_bounds [OF bp] by simp
  show "\<forall>x\<in>set dia. 20 \<le> x \<and> x \<le> 50"
    using generate_blood_pressure_data_bounds [OF bp] by simp
next
  assume "generate_oxygen_saturation_data o2 d s rd g = Inr ((tps4, sats), g4)"
  then show "\<forall>x\<in>set sats. 92 \<le> x \<and> x \<le> 100"
    by (rule generate_oxygen_saturation_data_bounds)
qed


theorem samples_within_clinical_bounds_witness:
  "(33 - 0.5 \<le> (37::real) + 0.5)
   \<and> simulate_rectal_temperature 37 33 12 0 5 5 (const_rng (1/2) 0)
       = Inr (([0], [37]), skip 1 (const_rng (1/2) 0))
   \<and> generate_heart_rate_data 140 5 5 0.5 (const_rng (1/2) 0)
       = Inr (([0], [126]), skip 2 (const_rng (1/2) 0))
   \<and> generate_blood_pressure_data 60 40 5 5 (const_rng (1/2) 0)
       = Inr (([0], [57], [38]), skip 2 (const_rng (1/2) 0))
   \<and> generate_oxygen_saturation_data 97 5 5 False (const_rng (1/2) 0)
       = Inr (([0], [97]), skip 1 (const_rng (1/2) 0))
   \<and> (33 - 0.5 \<le> (37::real) \<and> (37::real) \<le> 37 + 0.5)
   \<and> ((80::real) \<le> 126 \<and> (126::real) \<le> 180)
   \<and> ((40::real) \<le> 57 \<and> (57::real) \<le> 80)
   \<and> ((20::real) \<le> 38 \<and> (38::real) \<le> 50)
   \<and> ((92::real) \<le> 97 \<and> (97::real) \<le> 100)"
  using samples_within_clinical_bounds
    [where t = 33 and b = 37 and c = 12 and r = 0 and d = 5 and s = 5
       and g = "const_rng (1/2) 0" and ?tps1.0 = "[0]" and temps = "[37]"
       and ?g1.0 = "skip 1 (const_rng (1/2) 0)"
       and hr = 140 and stress = "0.5" and ?tps2.0 = "[0]" and hrs = "[126]"
       and ?g2.0 = "skip 2 (const_rng (1/2) 0)"
       and bs = 60 and bd = 40 and ?tps3.0 = "[0]" and sys = "[57]" and dia = "[38]"
       and ?g3.0 = "skip 2 (const_rng (1/2) 0)"
       and ?o2.0 = 97 and rd = False and ?tps4.0 = "[0]" and sats = "[97]"
       and ?g4.0 = "skip 1 (const_rng (1/2) 0)"]
  by (simp add: simulate_rectal_temperature_def generate_heart_rate_data_def
      generate_blood_pressure_data_def generate_oxygen_saturation_data_def
      arange_def py_int_def const_rng_def skip_def normal_def uniform_def advance_def
      clip_def in_dip_window_def Let_def)

text \<open>
  Claim C1 as stated fails: with a target more than one degree above the baseline
  (baseline 30, target 35) the sample written is \<open>baseline_temp + 0.5 = 30.5\<close>, below the
  lower bound \<open>target_temp - 0.5 = 34.5\<close>.
\<close>

theorem temperature_bound_counterexample:
  "map_sum id fst (simulate_rectal_temperature 30 35 1 0 5 5 (const_rng (1/2) 0))
     = Inr ([0], [61/2])
   \<and> \<not> (35 - 0.5 \<le> (61/2::real))"
  by (simp add: simulate_rectal_temperature_def arange_def py_int_def const_rng_def
      normal_def advance_def clip_def Let_def)

section \<open>Baseline profile\<close>

lemma baseline_explicit:
  "generate_baseline_parameters pid g =
     Inr (\<lparr>patient_id = pid,
           birth_weight_kg = fst (uniform 2.5 4.5 g),
           gestational_age_weeks = fst (uniform 35 42 (skip 1 g)),
           birth_hour = fst (randint 0 24 (skip 2 g)),
           hie_severity = fst (choice3 ''mild'' ''moderate'' ''severe'' (skip 3 g)),
           baseline_heart_rate = fst (uniform 120 160 (skip 4 g)),
           baseline_resp_rate = fst (uniform 40 60 (skip 5 g)),
           baseline_systolic_bp = fst (uniform 50 70 (skip 6 g)),
           baseline_diastolic_bp = fst (uniform 30 45 (skip 7 g)),
           baseline_oxygen_sat = fst (uniform 95 100 (skip 8 g)),
           baseline_rectal_temp = fst (uniform 36.8 37.4 (skip 9 g)),
           baseline_core_temp = fst (uniform 36.5 37.3 (skip 10 g)),
           seizure_risk_factor = fst (choice3 0.1 0.4 0.7 (skip 11 g))\<rparr>, skip 12 g)"
  unfolding generate_baseline_parameters_def Let_def split_def snd_draws skip_skip risk_lookup
  by (simp add: eval_nat_numeral)

text \<open>
  Claim C10. \<^verbatim>\<open>generate_baseline_parameters\<close> always returns a baseline; its
  \<open>seizure_risk_factor\<close> is one of 0.1, 0.4, 0.7 and is the value chosen by the twelfth
  draw of the call, a second severity draw, while \<open>hie_severity\<close> is chosen by the fourth
  draw; there is a random source with unit-interval samples for which the baseline has
  \<open>hie_severity = ''mild''\<close> and \<open>seizure_risk_factor = 0.7\<close>.
\<close>

theorem seizure_risk_from_second_draw:
  "(\<exists>b. generate_baseline_parameters pid g = Inr (b, skip 12 g)
        \<and> hie_severity b = fst (choice3 ''mild'' ''moderate'' ''severe'' (skip 3 g))
        \<and> seizure_risk_factor b = fst (choice3 0.1 0.4 0.7 (skip 11 g))
        \<and> seizure_risk_factor b \<in> {0.1, 0.4, 0.7})
   \<and> (\<exists>g0 b0 g1. unit_draws g0
        \<and> generate_baseline_parameters pid g0 = Inr (b0, g1)
        \<and> hie_severity b0 = ''mild'' \<and> seizure_risk_factor b0 = 0.7)"
proof
  show "\<exists>b. generate_baseline_parameters pid g = Inr (b, skip 12 g)
        \<and> hie_severity b = fst (choice3 ''mild'' ''moderate'' ''severe'' (skip 3 g))
        \<and> seizure_risk_factor b = fst (choice3 0.1 0.4 0.7 (skip 11 g))
        \<and> seizure_risk_factor b \<in> {0.1, 0.4, 0.7}"
    by (simp add: baseline_explicit) (simp add: choice3_def advance_skip)
next
  let ?g = "listed_rng [0, 0, 0, 0, 0, 0, 0, 0, 0, 0, 0, 0.9]"
  have "unit_draws ?g"
    by (simp add: unit_draws_def listed_rng_def nth_Cons')
  moreover have "hie_severity (fst (projr (generate_baseline_parameters pid ?g))) = ''mild''"
    by (simp add: baseline_explicit) (simp add: choice3_def listed_rng_def advance_skip)
  moreover have "seizure_risk_factor (fst (projr (generate_baseline_parameters pid ?g))) = 0.7"
    by (simp add: baseline_explicit) (simp add: choice3_def listed_rng_def advance_skip)
  moreover have "generate_baseline_parameters pid ?g = Inr (fst (projr (generate_baseline_parameters pid ?g)), skip 12 ?g)"
    by (simp add: baseline_explicit)
  ultimately show "\<exists>g0 b0 g1. unit_draws g0
        \<and> generate_baseline_parameters pid g0 = Inr (b0, g1)
        \<and> hie_severity b0 = ''mild'' \<and> seizure_risk_factor b0 = 0.7"
    by blast
qed

section \<open>Runs of the patient pipeline\<close>

lemma run_prelude:
  "\<exists>bp pr w1.
      generate_baseline_parameters pid (np_random w) = Inr (bp, skip 12 (np_random w))
    \<and> hie_severity bp \<in> {''mild'', ''moderate'', ''severe''}
    \<and> generate_cooling_protocol (hie_severity bp) (baseline_rectal_temp bp)
         (w\<lparr>np_random := skip 12 (np_random w)\<rparr>) = Inr (pr, w1)
    \<and> np_random w1 = skip 21 (np_random w)
    \<and> baseline_temp pr = baseline_rectal_temp bp
    \<and> (unit_draws (np_random w) \<longrightarrow>
          0.1 \<le> cooling_rate pr \<and> 32 \<le> target_temp pr \<and> target_temp pr \<le> 33.5)"
proof -
  obtain bp where bp: "generate_baseline_parameters pid (np_random w) = Inr (bp, skip 12 (np_random w))"
    and sev: "hie_severity bp = fst (choice3 ''mild'' ''moderate'' ''severe'' (skip 3 (np_random w)))"
    by (simp add: baseline_explicit)
  have sev3: "hie_severity bp \<in> {''mild'', ''moderate'', ''severe''}"
    unfolding sev by (rule choice3_cases)
  from cooling_protocol_ok [OF sev3, of "baseline_rectal_temp bp" "w\<lparr>np_random := skip 12 (np_random w)\<rparr>"]
  obtain pr where pr: "generate_cooling_protocol (hie_severity bp) (baseline_rectal_temp bp)
         (w\<lparr>np_random := skip 12 (np_random w)\<rparr>)
       = Inr (pr, w\<lparr>np_random := skip 21 (np_random w), clock_reads := Suc (clock_reads w)\<rparr>)"
    and bt: "baseline_temp pr = baseline_rectal_temp bp"
    and rg: "unit_draws (np_random w) \<longrightarrow>
          0.1 \<le> cooling_rate pr \<and> 32 \<le> target_temp pr \<and> target_temp pr \<le> 33.5"
    by (auto simp: skip_skip)
  show ?thesis
    using bp sev3 pr bt rg by (intro exI [of _ bp] exI [of _ pr] exI) auto
qed

lemma complete_patient_run_columns:
  assumes "complete_patient_run pid hours step w = Inr r"
  shows "columns (frame r) = dataset_columns"
proof -
  from run_prelude [of pid w] obtain bp pr w1 where
    bp: "generate_baseline_parameters pid (np_random w) = Inr (bp, skip 12 (np_random w))"
    and sev: "hie_severity bp \<in> {''mild'', ''moderate'', ''severe''}"
    and pr: "generate_cooling_protocol (hie_severity bp) (baseline_rectal_temp bp)
         (w\<lparr>np_random := skip 12 (np_random w)\<rparr>) = Inr (pr, w1)"
    by blast
  from assms show ?thesis
    unfolding run_unfold [OF bp pr sev]
    by (auto simp: add_baseline_columns_explicit columns_def dataset_columns_def
        split: if_splits)
qed

lemma length_arange_grid: "0 \<le> hours \<Longrightarrow> hours mod 4 = 0 \<Longrightarrow> length (arange hours 4) = nat (hours div 4)"
proof -
  assume "0 \<le> hours" "hours mod 4 = 0"
  then obtain k where "hours = 4 * k"
    by (auto simp: mod_eq_0_iff_dvd elim: dvdE)
  then show ?thesis
    by (simp add: arange_def)
qed

lemma complete_patient_run_ok:
  assumes "unit_draws (np_random w)" "step \<noteq> 0" "0 \<le> hours" "hours mod 4 = 0"
  shows "\<exists>r. complete_patient_run pid hours step w = Inr r"
proof -
  from run_prelude [of pid w] assms(1) obtain bp pr w1 where
    bp: "generate_baseline_parameters pid (np_random w) = Inr (bp, skip 12 (np_random w))"
    and sev: "hie_severity bp \<in> {''mild'', ''moderate'', ''severe''}"
    and pr: "generate_cooling_protocol (hie_severity bp) (baseline_rectal_temp bp)
         (w\<lparr>np_random := skip 12 (np_random w)\<rparr>) = Inr (pr, w1)"
    and rate: "0.1 \<le> cooling_rate pr"
    by blast
  have "hours div 4 \<ge> 0" using assms(3) by simp
  with assms rate length_arange_grid [OF assms(3,4)] show ?thesis
    unfolding run_unfold [OF bp pr sev] by auto
qed

lemma complete_patient_run_rng:
  assumes "complete_patient_run pid hours step w = Inr r"
  shows "\<exists>k. np_random (world_after r) = skip k (np_random w)"
proof -
  from run_prelude [of pid w] obtain bp pr w1 where
    bp: "generate_baseline_parameters pid (np_random w) = Inr (bp, skip 12 (np_random w))"
    and sev: "hie_severity bp \<in> {''mild'', ''moderate'', ''severe''}"
    and pr: "generate_cooling_protocol (hie_severity bp) (baseline_rectal_temp bp)
         (w\<lparr>np_random := skip 12 (np_random w)\<rparr>) = Inr (pr, w1)"
    and w1: "np_random w1 = skip 21 (np_random w)"
    by blast
  let ?tps = "arange (hours * 60) step"
  let ?g3 = "skip (2 * length ?tps) (skip (Suc (length ?tps)) (skip (length ?tps) (np_random w1)))"
  obtain k where k: "snd (oxygen_saturation_loop (baseline_oxygen_sat bp) step
       (hie_severity bp = ''severe'') 0 ?tps ?g3) = skip k ?g3"
    using oxygen_saturation_loop_rng by blast
  from assms have "np_random (world_after r) = skip (4 * nat (hours div 4)) (skip k ?g3)"
    unfolding run_unfold [OF bp pr sev] k
    by (auto split: if_splits)
  then show ?thesis
    unfolding w1 skip_skip by blast
qed

section \<open>Joining the blood-gas grid onto the vitals grid\<close>

lemma filter_eq_upt: "filter (\<lambda>j. j = c) [0..<m] = (if c < m then [c] else [])"
  by (induction m) auto

lemma concat_map_singleton: "concat (map (\<lambda>i. [f i]) xs) = map f xs"
  by (induction xs) auto

lemma arange_nth:
  "i < length (arange stop step) \<Longrightarrow> arange stop step ! i = int i * step"
  by (simp add: arange_def)

lemma arange_below:
  assumes "0 < step" "i < length (arange stop step)"
  shows "int i * step < stop"
proof -
  define q where "q = (- stop) div step"
  define P where "P = q * step"
  define X where "X = int i * step"
  define r where "r = (- stop) mod step"
  from assms(2) have "int i + 1 \<le> - q"
    by (simp add: arange_def q_def)
  with assms(1) have "(int i + 1) * step \<le> (- q) * step"
    by (rule_tac mult_right_mono) simp_all
  then have A: "X + step \<le> - P"
    by (simp add: X_def P_def algebra_simps)
  have B: "P + r = - stop"
    unfolding P_def r_def q_def by (rule div_mult_mod_eq)
  have C: "r < step"
    unfolding r_def using assms(1) by simp
  from A B C show ?thesis
    unfolding X_def by linarith
qed

lemma grid_match:
  assumes "0 < step" "0 \<le> hours" "hours mod 4 = 0" "i < length (arange (hours * 60) step)"
  shows "filter (\<lambda>j. map (\<lambda>t. Num (real_of_int t)) (arange hours 4) ! j
                    = map (\<lambda>t. Num (real_of_int t / 60)) (arange (hours * 60) step) ! i)
           [0..<length (map (\<lambda>t. Num (real_of_int t)) (arange hours 4))]
         = (if 240 dvd (int i * step) then [nat (int i * step div 240)] else [])"
proof -
  let ?T = "int i * step"
  let ?m = "nat (hours div 4)"
  have m: "length (arange hours 4) = ?m"
    using assms(2,3) by (rule length_arange_grid)
  have T0: "0 \<le> ?T" using assms(1) by simp
  have Tlt: "?T < hours * 60" using assms(1,4) by (rule arange_below)
  have key: "(map (\<lambda>t. Num (real_of_int t)) (arange hours 4) ! j
                = map (\<lambda>t. Num (real_of_int t / 60)) (arange (hours * 60) step) ! i)
             = (240 dvd ?T \<and> j = nat (?T div 240))" if "j < ?m" for j
  proof -
    have "(real_of_int (int j * 4) = real_of_int ?T / 60) = (int j * 240 = ?T)"
      by linarith
    moreover have "(int j * 240 = ?T) = (240 dvd ?T \<and> j = nat (?T div 240))"
    proof
      assume eq: "int j * 240 = ?T"
      then have "240 dvd ?T"
        by (metis dvd_triv_right)
      moreover from eq have "?T div 240 = int j"
        by (metis nonzero_mult_div_cancel_right zero_neq_numeral)
      ultimately show "240 dvd ?T \<and> j = nat (?T div 240)"
        by simp
    next
      assume "240 dvd ?T \<and> j = nat (?T div 240)"
      then show "int j * 240 = ?T"
        using T0 by (simp add: pos_imp_zdiv_nonneg_iff)
    qed
    ultimately show ?thesis
      using that assms(4) by (simp add: m arange_nth)
  qed
  have "filter (\<lambda>j. map (\<lambda>t. Num (real_of_int t)) (arange hours 4) ! j
                    = map (\<lambda>t. Num (real_of_int t / 60)) (arange (hours * 60) step) ! i)
           [0..<?m]
        = filter (\<lambda>j. 240 dvd ?T \<and> j = nat (?T div 240)) [0..<?m]"
    by (rule filter_cong) (auto simp: key)
  also have "\<dots> = (if 240 dvd ?T then filter (\<lambda>j. j = nat (?T div 240)) [0..<?m] else [])"
    by simp
  also have "\<dots> = (if 240 dvd ?T then [nat (?T div 240)] else [])"
  proof -
    have "nat (?T div 240) < ?m"
      using T0 Tlt assms(2,3) by auto
    then show ?thesis by (simp add: filter_eq_upt)
  qed
  finally show ?thesis by (simp add: m)
qed

lemma match_rows_grid:
  assumes "0 < step" "0 \<le> hours" "hours mod 4 = 0"
  shows "match_rows (map (\<lambda>t. Num (real_of_int t / 60)) (arange (hours * 60) step))
           (map (\<lambda>t. Num (real_of_int t)) (arange hours 4))
         = map (\<lambda>i. (i, if 240 dvd (int i * step) then Some (nat (int i * step div 240)) else None))
             [0..<length (arange (hours * 60) step)]"
proof -
  let ?n = "length (arange (hours * 60) step)"
  let ?lk = "map (\<lambda>t. Num (real_of_int t / 60)) (arange (hours * 60) step)"
  let ?rk = "map (\<lambda>t. Num (real_of_int t)) (arange hours 4)"
  let ?row = "\<lambda>i. let js = filter (\<lambda>j. ?rk ! j = ?lk ! i) [0..<length ?rk]
                  in if js = [] then [(i, None)] else map (\<lambda>j. (i, Some j)) js"
  let ?res = "\<lambda>i. (i, if 240 dvd (int i * step) then Some (nat (int i * step div 240)) else None)"
  have "map ?row [0..<?n] = map (\<lambda>i. [?res i]) [0..<?n]"
  proof (rule map_cong [OF refl])
    fix i assume "i \<in> set [0..<?n]"
    then have "i < ?n" by simp
    from grid_match [OF assms this] show "?row i = [?res i]"
      by (simp add: Let_def)
  qed
  then have "concat (map ?row [0..<?n]) = map ?res [0..<?n]"
    by (simp only: concat_map_singleton)
  then show ?thesis
    by (simp add: match_rows_def)
qed

lemma ffill_from_append:
  "ffill_from l (xs @ ys) = ffill_from l xs @ ffill_from (last (l # ffill_from l xs)) ys"
  by (induction xs arbitrary: l) auto

lemma ffill_grid:
  assumes "0 < q" "\<And>k. c k \<noteq> NaN"
  shows "ffill (map (\<lambda>i. if q dvd i then c (i div q) else NaN) [0..<n])
         = map (\<lambda>i. c (i div q)) [0..<n]"
proof (induction n)
  case 0
  show ?case by (simp add: ffill_def)
next
  case (Suc n)
  let ?f = "\<lambda>i. if q dvd i then c (i div q) else NaN"
  let ?g = "\<lambda>i. c (i div q)"
  have "ffill (map ?f [0..<Suc n]) = ffill_from NaN (map ?f [0..<n] @ [?f n])"
    by (simp add: ffill_def)
  also have "\<dots> = map ?g [0..<n] @ ffill_from (last (NaN # map ?g [0..<n])) [?f n]"
    using Suc.IH by (simp only: ffill_from_append ffill_def)
  also have "ffill_from (last (NaN # map ?g [0..<n])) [?f n] = [?g n]"
  proof (cases "q dvd n")
    case True
    then show ?thesis using assms(2) by simp
  next
    case False
    then obtain m where m: "n = Suc m"
      by (cases n) auto
    with False have "Suc m mod q \<noteq> 0"
      by (simp add: mod_eq_0_iff_dvd)
    then have "Suc m div q = m div q"
      by (simp add: div_Suc)
    with False m show ?thesis by simp
  qed
  finally show ?case by simp
qed

section \<open>The cells of the assembled frame\<close>

lemma left_cells_grid:
  assumes "0 < step" "0 \<le> hours" "hours mod 4 = 0"
    and "length cells = length (arange (hours * 60) step)"
  shows "left_cells (map (\<lambda>t. Num (real_of_int t / 60)) (arange (hours * 60) step))
           (map (\<lambda>t. Num (real_of_int t)) (arange hours 4)) cells = cells"
  unfolding left_cells_def match_rows_grid [OF assms(1-3)]
  using assms(4) by (simp add: comp_def map_nth [symmetric] del: map_nth) (metis map_nth)

lemma right_cells_grid:
  assumes "0 < step" "0 \<le> hours" "hours mod 4 = 0"
  shows "right_cells (map (\<lambda>t. Num (real_of_int t / 60)) (arange (hours * 60) step))
           (map (\<lambda>t. Num (real_of_int t)) (arange hours 4)) cells
         = map (\<lambda>i. if 240 dvd (int i * step) then cells ! nat (int i * step div 240) else NaN)
             [0..<length (arange (hours * 60) step)]"
  unfolding right_cells_def match_rows_grid [OF assms(1-3)]
  by (simp add: comp_def)

lemma run_hours:
  assumes "complete_patient_run pid hours step w = Inr r"
  shows "0 \<le> hours \<and> hours mod 4 = 0 \<and> step \<noteq> 0"
proof -
  from run_prelude [of pid w] obtain bp pr w1 where
    bp: "generate_baseline_parameters pid (np_random w) = Inr (bp, skip 12 (np_random w))"
    and sev: "hie_severity bp \<in> {''mild'', ''moderate'', ''severe''}"
    and pr: "generate_cooling_protocol (hie_severity bp) (baseline_rectal_temp bp)
         (w\<lparr>np_random := skip 12 (np_random w)\<rparr>) = Inr (pr, w1)"
    by blast
  from assms have "0 \<le> hours div 4" "nat (hours div 4) = length (arange hours 4)" "step \<noteq> 0"
    unfolding run_unfold [OF bp pr sev] by (auto split: if_splits)
  then have "0 \<le> hours div 4 \<and> hours div 4 = - ((- hours) div 4) \<and> step \<noteq> 0"
    by (simp add: arange_def)
  then show ?thesis
    by presburger
qed

lemma ite_Inr:
  "(if A then Inl x else if B then Inl y else Inr R) = Inr r \<Longrightarrow> \<not> A \<and> \<not> B \<and> r = R"
  by (auto split: if_splits)

lemma run_shape:
  fixes pid hours step w
  defines "tps \<equiv> arange (hours * 60) step"
  defines "lkeys \<equiv> map (\<lambda>t. Num (real_of_int t / 60)) tps"
    and "rkeys \<equiv> map (\<lambda>t. Num (real_of_int t)) (arange hours 4)"
  obtains (shape) bp pr w1 temps hrs sys dia sats abg g5 where
    "complete_patient_run pid hours step w =
       (if step = 0 \<or> cooling_rate pr = 0 then Inl ZeroDivisionError
        else if hours div 4 < 0 \<or> nat (hours div 4) \<noteq> length (arange hours 4)
        then Inl ValueError
        else Inr \<lparr>baseline_params = bp, protocol = pr, time_points_vitals = tps,
          rectal_temps = temps, heart_rates = hrs, systolic_bp = sys, diastolic_bp = dia,
          spo2 = sats, time_points_abg = arange hours 4,
          pH = map (\<lambda>(a, b, c, d). a) abg,
          pco2 = map (\<lambda>(a, b, c, d). b) abg,
          po2 = map (\<lambda>(a, b, c, d). c) abg,
          lactate = map (\<lambda>(a, b, c, d). d) abg,
          frame = add_baseline_columns
            [(''patient_id'', left_cells lkeys rkeys (replicate (length tps) (Str pid))),
             (''time_minutes'', left_cells lkeys rkeys (map (\<lambda>t. Num (real_of_int t)) tps)),
             (''time_hours_x'', left_cells lkeys rkeys lkeys),
             (''rectal_temperature_c'', left_cells lkeys rkeys (map Num temps)),
             (''heart_rate_bpm'', left_cells lkeys rkeys (map Num hrs)),
             (''systolic_bp_mmhg'', left_cells lkeys rkeys (map Num sys)),
             (''diastolic_bp_mmhg'', left_cells lkeys rkeys (map Num dia)),
             (''oxygen_saturation_percent'', left_cells lkeys rkeys (map Num sats)),
             (''hie_severity'', left_cells lkeys rkeys
                (replicate (length tps) (Str (hie_severity bp)))),
             (''target_temp_c'', left_cells lkeys rkeys
                (replicate (length tps) (Num (target_temp pr)))),
             (''time_hours_y'', right_cells lkeys rkeys rkeys),
             (''pH'', ffill (right_cells lkeys rkeys (map Num (map (\<lambda>(a, b, c, d). a) abg)))),
             (''pCO2_mmhg'', ffill (right_cells lkeys rkeys (map Num (map (\<lambda>(a, b, c, d). b) abg)))),
             (''pO2_mmhg'', ffill (right_cells lkeys rkeys (map Num (map (\<lambda>(a, b, c, d). c) abg)))),
             (''lactate_mmol'', ffill (right_cells lkeys rkeys (map Num (map (\<lambda>(a, b, c, d). d) abg))))]
            (baseline_items bp),
          world_after = w1\<lparr>np_random := g5\<rparr>\<rparr>)"
    "generate_baseline_parameters pid (np_random w) = Inr (bp, skip 12 (np_random w))"
    "hie_severity bp \<in> {''mild'', ''moderate'', ''severe''}"
    "generate_cooling_protocol (hie_severity bp) (baseline_rectal_temp bp)
         (w\<lparr>np_random := skip 12 (np_random w)\<rparr>) = Inr (pr, w1)"
    "baseline_temp pr = baseline_rectal_temp bp"
    "(unit_draws (np_random w) \<longrightarrow>
          0.1 \<le> cooling_rate pr \<and> 32 \<le> target_temp pr \<and> target_temp pr \<le> 33.5)"
    "temps = fst (temperature_loop (baseline_temp pr) (target_temp pr) (cooling_rate pr / 60)
         (py_int (\<bar>baseline_temp pr - target_temp pr\<bar> / (cooling_rate pr / 60 / 60)
                    / real_of_int step)) 0 tps (skip 21 (np_random w)))"
    "length temps = length tps"
    "length hrs = length tps"
    "length sys = length tps"
    "length dia = length tps"
    "length sats = length tps"
    "length abg = nat (hours div 4)"
    "(\<exists>k. abg = abg_samples hours (hie_severity bp) (skip k (np_random w)))"
    "(\<exists>k. g5 = skip k (np_random w))"
proof -
  from run_prelude [of pid w] obtain bp pr w1 where
    bp: "generate_baseline_parameters pid (np_random w) = Inr (bp, skip 12 (np_random w))"
    and sev: "hie_severity bp \<in> {''mild'', ''moderate'', ''severe''}"
    and pr: "generate_cooling_protocol (hie_severity bp) (baseline_rectal_temp bp)
         (w\<lparr>np_random := skip 12 (np_random w)\<rparr>) = Inr (pr, w1)"
    and w1: "np_random w1 = skip 21 (np_random w)"
    and bt: "baseline_temp pr = baseline_rectal_temp bp"
    and rg: "unit_draws (np_random w) \<longrightarrow>
          0.1 \<le> cooling_rate pr \<and> 32 \<le> target_temp pr \<and> target_temp pr \<le> 33.5"
    by blast
  let ?tps = "arange (hours * 60) step"
  let ?g3 = "skip (2 * length ?tps) (skip (Suc (length ?tps)) (skip (length ?tps) (np_random w1)))"
  obtain k where k: "snd (oxygen_saturation_loop (baseline_oxygen_sat bp) step
       (hie_severity bp = ''severe'') 0 ?tps ?g3) = skip k ?g3"
    using oxygen_saturation_loop_rng by blast
  have k': "skip k ?g3 = skip (21 + length ?tps + Suc (length ?tps) + 2 * length ?tps + k) (np_random w)"
    unfolding w1 skip_skip ..
  note abgk = k [unfolded k']
  show thesis
    apply (rule that [unfolded tps_def lkeys_def rkeys_def])
                  apply (rule run_unfold [OF bp pr sev])
                 apply (rule bp)
                apply (rule sev)
               apply (rule pr)
              apply (rule bt)
             apply (rule rg)
            apply (simp only: w1)
           apply (rule temperature_loop_length)
          apply (rule heart_rate_loop_length)
         apply (rule blood_pressure_loop_length [THEN conjunct1])
        apply (rule blood_pressure_loop_length [THEN conjunct2])
       apply (rule oxygen_saturation_loop_length)
      apply (rule length_abg_samples [OF sev])
     apply (rule exI, subst abgk, rule refl)
    apply (rule exI, subst abgk, rule skip_skip)
    done
qed

lemma run_frame:
  fixes pid hours step w r
  defines "n \<equiv> length (arange (hours * 60) step)"
  defines "carried \<equiv> \<lambda>cs. ffill (map (\<lambda>i. if 240 dvd (int i * step)
                            then cs ! nat (int i * step div 240) else NaN) [0..<n])"
  assumes run: "complete_patient_run pid hours step w = Inr r" and step: "0 < step"
  shows "time_points_vitals r = arange (hours * 60) step
       \<and> time_points_abg r = arange hours 4
       \<and> length (pH r) = nat (hours div 4) \<and> length (pco2 r) = nat (hours div 4)
       \<and> length (po2 r) = nat (hours div 4) \<and> length (lactate r) = nat (hours div 4)
       \<and> nrows (frame r) = n
       \<and> map_of (frame r) ''patient_id'' = Some (replicate n (Str pid))
       \<and> map_of (frame r) ''time_minutes''
            = Some (map (\<lambda>t. Num (real_of_int t)) (arange (hours * 60) step))
       \<and> map_of (frame r) ''pH'' = Some (carried (map Num (pH r)))
       \<and> map_of (frame r) ''pCO2_mmhg'' = Some (carried (map Num (pco2 r)))
       \<and> map_of (frame r) ''pO2_mmhg'' = Some (carried (map Num (po2 r)))
       \<and> map_of (frame r) ''lactate_mmol'' = Some (carried (map Num (lactate r)))"
proof -
  from run_hours [OF run] have h: "0 \<le> hours" "hours mod 4 = 0"
    by simp_all
  note grid = left_cells_grid [OF step h] right_cells_grid [OF step h]
  let ?tps = "arange (hours * 60) step"
  let ?lk = "map (\<lambda>t. Num (real_of_int t / 60)) ?tps"
  let ?rk = "map (\<lambda>t. Num (real_of_int t)) (arange hours 4)"
  show ?thesis
  proof (cases rule: run_shape [of pid hours step w])
    case (shape bp pr w1 temps hrs sys dia sats abg g5)
    note eq = shape(1) and len = shape(8-13)
    from run [unfolded eq] have r: "r = \<lparr>baseline_params = bp, protocol = pr,
          time_points_vitals = arange (hours * 60) step,
          rectal_temps = temps, heart_rates = hrs, systolic_bp = sys, diastolic_bp = dia,
          spo2 = sats, time_points_abg = arange hours 4,
          pH = map (\<lambda>(a, b, c, d). a) abg,
          pco2 = map (\<lambda>(a, b, c, d). b) abg,
          po2 = map (\<lambda>(a, b, c, d). c) abg,
          lactate = map (\<lambda>(a, b, c, d). d) abg,
          frame = add_baseline_columns
            [(''patient_id'', left_cells ?lk ?rk (replicate (length ?tps) (Str pid))),
             (''time_minutes'', left_cells ?lk ?rk (map (\<lambda>t. Num (real_of_int t)) ?tps)),
             (''time_hours_x'', left_cells ?lk ?rk ?lk),
             (''rectal_temperature_c'', left_cells ?lk ?rk (map Num temps)),
             (''heart_rate_bpm'', left_cells ?lk ?rk (map Num hrs)),
             (''systolic_bp_mmhg'', left_cells ?lk ?rk (map Num sys)),
             (''diastolic_bp_mmhg'', left_cells ?lk ?rk (map Num dia)),
             (''oxygen_saturation_percent'', left_cells ?lk ?rk (map Num sats)),
             (''hie_severity'', left_cells ?lk ?rk
                (replicate (length ?tps) (Str (hie_severity bp)))),
             (''target_temp_c'', left_cells ?lk ?rk
                (replicate (length ?tps) (Num (target_temp pr)))),
             (''time_hours_y'', right_cells ?lk ?rk ?rk),
             (''pH'', ffill (right_cells ?lk ?rk (map Num (map (\<lambda>(a, b, c, d). a) abg)))),
             (''pCO2_mmhg'', ffill (right_cells ?lk ?rk (map Num (map (\<lambda>(a, b, c, d). b) abg)))),
             (''pO2_mmhg'', ffill (right_cells ?lk ?rk (map Num (map (\<lambda>(a, b, c, d). c) abg)))),
             (''lactate_mmol'', ffill (right_cells ?lk ?rk (map Num (map (\<lambda>(a, b, c, d). d) abg))))]
            (baseline_items bp),
          world_after = w1\<lparr>np_random := g5\<rparr>\<rparr>"
      by (rule ite_Inr [THEN conjunct2, THEN conjunct2])
    have abg: "length (pH r) = nat (hours div 4)" "length (pco2 r) = nat (hours div 4)"
      "length (po2 r) = nat (hours div 4)" "length (lactate r) = nat (hours div 4)"
      by (simp_all add: r len)
    have tp: "time_points_vitals r = arange (hours * 60) step" "time_points_abg r = arange hours 4"
      by (simp_all add: r)
    have cols: "map_of (frame r) ''patient_id'' = Some (replicate n (Str pid))"
      by (simp add: r add_baseline_columns_explicit grid n_def)
    have rows: "nrows (frame r) = n"
      by (simp add: r add_baseline_columns_explicit grid n_def nrows_def)
    have tm: "map_of (frame r) ''time_minutes''
            = Some (map (\<lambda>t. Num (real_of_int t)) (arange (hours * 60) step))"
      by (simp add: r add_baseline_columns_explicit grid)
    have c1: "map_of (frame r) ''pH'' = Some (carried (map Num (pH r)))"
      by (simp add: r add_baseline_columns_explicit grid n_def carried_def)
    have c2: "map_of (frame r) ''pCO2_mmhg'' = Some (carried (map Num (pco2 r)))"
      by (simp add: r add_baseline_columns_explicit grid n_def carried_def)
    have c3: "map_of (frame r) ''pO2_mmhg'' = Some (carried (map Num (po2 r)))"
      by (simp add: r add_baseline_columns_explicit grid n_def carried_def)
    have c4: "map_of (frame r) ''lactate_mmol'' = Some (carried (map Num (lactate r)))"
      by (simp add: r add_baseline_columns_explicit grid n_def carried_def)
    from abg tp cols rows tm c1 c2 c3 c4 show ?thesis
      by (intro conjI)
  qed
qed

section \<open>The columns of a patient data set\<close>

lemma unit_draws_sample [simp]: "unit_draws (np_random (sample_world (const_rng (1/2) 0)))"
  by (simp add: unit_draws_def sample_world_def const_rng_def)

lemma generate_complete_patient_dataset_Inr:
  "generate_complete_patient_dataset pid hours step w = Inr (df, w') \<longleftrightarrow>
     (\<exists>r. complete_patient_run pid hours step w = Inr r \<and> df = frame r \<and> w' = world_after r)"
  by (auto simp: generate_complete_patient_dataset_def split: sum.splits)

text \<open>
  Claim C8 (the code departs from it). Every data frame that
  \<^verbatim>\<open>generate_complete_patient_dataset\<close> returns has exactly the columns of
  \<open>dataset_columns\<close>: the merge renames the vitals frame's \<^verbatim>\<open>time_hours\<close> to
  \<^verbatim>\<open>time_hours_x\<close> and keeps the blood-gas key as \<^verbatim>\<open>time_hours_y\<close>, so there is no
  column named \<^verbatim>\<open>time_hours\<close>; the other thirteen named columns and one
  \<^verbatim>\<open>baseline_\<close> column per baseline field but the identifier are there.
\<close>

theorem patient_dataset_columns:
  assumes "generate_complete_patient_dataset pid hours step w = Inr (df, w')"
  shows "columns df = dataset_columns \<and> ''time_hours'' \<notin> set (columns df)
       \<and> ''time_hours_x'' \<in> set (columns df) \<and> ''time_hours_y'' \<in> set (columns df)"
proof -
  from assms obtain r where "complete_patient_run pid hours step w = Inr r" "df = frame r"
    by (auto simp: generate_complete_patient_dataset_Inr)
  then have "columns df = dataset_columns"
    by (simp add: complete_patient_run_columns)
  then show ?thesis
    by (simp add: dataset_columns_def)
qed

theorem patient_dataset_columns_witness:
  "\<not> isl (generate_complete_patient_dataset ''PATIENT_0001'' 72 5
             (sample_world (const_rng (1/2) 0)))
   \<and> columns (fst (projr (generate_complete_patient_dataset ''PATIENT_0001'' 72 5
             (sample_world (const_rng (1/2) 0))))) = dataset_columns
   \<and> ''time_hours'' \<notin> set dataset_columns"
proof -
  let ?w = "sample_world (const_rng (1/2) 0)"
  obtain r where "complete_patient_run ''PATIENT_0001'' 72 5 ?w = Inr r"
    using complete_patient_run_ok [of ?w 5 72 "''PATIENT_0001''"] by auto
  then have run: "generate_complete_patient_dataset ''PATIENT_0001'' 72 5 ?w
                  = Inr (frame r, world_after r)"
    by (simp add: generate_complete_patient_dataset_def)
  from patient_dataset_columns [OF run] show ?thesis
    by (simp add: run) (simp add: dataset_columns_def)
qed

lemma length_arange_72: "length (arange 4320 5) = 864" "length (arange 72 4) = 18"
  by (simp_all add: arange_def)

lemma patient_run_72:
  assumes "unit_draws (np_random w)"
  obtains r where "complete_patient_run pid 72 5 w = Inr r"
    "columns (frame r) = dataset_columns" "nrows (frame r) = 864"
    "map_of (frame r) ''patient_id'' = Some (replicate 864 (Str pid))"
    "length (time_points_abg r) = 18" "length (pH r) = 18" "length (pco2 r) = 18"
    "length (po2 r) = 18" "length (lactate r) = 18"
    "unit_draws (np_random (world_after r))"
proof -
  obtain r where run: "complete_patient_run pid 72 5 w = Inr r"
    using complete_patient_run_ok [OF assms, of 5 72 pid] by auto
  from complete_patient_run_rng [OF run] assms have u: "unit_draws (np_random (world_after r))"
    by auto
  from run_frame [OF run zero_less_numeral] have
    "time_points_abg r = arange 72 4" "length (pH r) = 18" "length (pco2 r) = 18"
    "length (po2 r) = 18" "length (lactate r) = 18" "nrows (frame r) = 864"
    "map_of (frame r) ''patient_id'' = Some (replicate 864 (Str pid))"
    by (simp_all add: length_arange_72)
  with run u complete_patient_run_columns [OF run] show thesis
    by (intro that [of r]) (simp_all add: length_arange_72)
qed

section \<open>Batches of patients\<close>

lemma remdups_absorb: "set xs \<subseteq> set zs \<Longrightarrow> remdups (xs @ zs) = remdups zs"
  by (induction xs) auto

lemma first_occurrences:
  assumes "distinct cs" "set ys \<subseteq> set cs"
  shows "rev (remdups (rev (cs @ ys))) = cs"
proof -
  have "remdups (rev ys @ rev cs) = remdups (rev cs)"
    using assms(2) by (intro remdups_absorb) simp
  then show ?thesis
    using assms(1) by (simp add: distinct_remdups_id)
qed

lemma concat_frames_same_columns:
  assumes "columns d = cs" "\<And>df. df \<in> set ds \<Longrightarrow> columns df = cs" "distinct cs"
  shows "concat_frames (d # ds) =
     Inr (map (\<lambda>name.
            (name, concat (map (\<lambda>df. case map_of df name of
                                        None \<Rightarrow> replicate (nrows df) NaN
                                      | Some cells \<Rightarrow> cells) (d # ds)))) cs)"
proof -
  have "set (concat (map columns ds)) \<subseteq> set cs"
    using assms(2) by auto
  then have "rev (remdups (rev (cs @ concat (map columns ds)))) = cs"
    by (rule first_occurrences [OF assms(3)])
  then have "rev (remdups (rev (concat (map columns (d # ds))))) = cs"
    by (simp only: assms(1) list.map concat.simps)
  then show ?thesis
    by (simp add: concat_frames_def)
qed

lemma map_of_tabulate:
  "map_of (map (\<lambda>name. (name, F name)) cs) k = (if k \<in> set cs then Some (F k) else None)"
  by (induction cs) auto

lemma distinct_dataset_columns: "distinct dataset_columns"
  by (simp add: dataset_columns_def)

lemma decimal_small: "n < 10 \<Longrightarrow> decimal n = [digit n]"
  by (subst decimal.simps) simp

lemma replicate_3: "replicate 3 c = [c, c, c]"
  by (simp add: numeral_3_eq_3)

lemma patient_names:
  "patient_name 0 = ''PATIENT_0001''" "patient_name (Suc 0) = ''PATIENT_0002''"
  "patient_name (Suc (Suc 0)) = ''PATIENT_0003''"
  by (simp_all add: patient_name_def decimal_small digit_def replicate_3)

lemma batch_of_three:
  assumes "unit_draws (np_random w)"
  shows "\<exists>df w'. generate_batch_dataset 3 72 w = Inr (df, w') \<and> nrows df = 3 * 864
     \<and> map_of df ''patient_id''
         = Some (replicate 864 (Str ''PATIENT_0001'') @ replicate 864 (Str ''PATIENT_0002'')
                 @ replicate 864 (Str ''PATIENT_0003''))"
proof -
  from patient_run_72 [OF assms, of "patient_name 0"] obtain r1 where
    r1: "complete_patient_run (patient_name 0) 72 5 w = Inr r1"
    and c1: "columns (frame r1) = dataset_columns"
    and p1: "map_of (frame r1) ''patient_id'' = Some (replicate 864 (Str (patient_name 0)))"
    and u1: "unit_draws (np_random (world_after r1))"
    by blast
  from patient_run_72 [OF u1, of "patient_name 1"] obtain r2 where
    r2: "complete_patient_run (patient_name 1) 72 5 (world_after r1) = Inr r2"
    and c2: "columns (frame r2) = dataset_columns"
    and p2: "map_of (frame r2) ''patient_id'' = Some (replicate 864 (Str (patient_name 1)))"
    and u2: "unit_draws (np_random (world_after r2))"
    by blast
  from patient_run_72 [OF u2, of "patient_name 2"] obtain r3 where
    r3: "complete_patient_run (patient_name 2) 72 5 (world_after r2) = Inr r3"
    and c3: "columns (frame r3) = dataset_columns"
    and p3: "map_of (frame r3) ''patient_id'' = Some (replicate 864 (Str (patient_name 2)))"
    by blast
  have loop: "batch_loop 0 3 72 w = Inr ([frame r1, frame r2, frame r3], world_after r3)"
    using r1 r2 r3
    by (simp add: numeral_3_eq_3 numeral_2_eq_2 generate_complete_patient_dataset_def)
  have cat: "concat_frames [frame r1, frame r2, frame r3] =
     Inr (map (\<lambda>name.
            (name, concat (map (\<lambda>df. case map_of df name of
                                        None \<Rightarrow> replicate (nrows df) NaN
                                      | Some cells \<Rightarrow> cells) [frame r1, frame r2, frame r3])))
            dataset_columns)"
    using c1 c2 c3 by (intro concat_frames_same_columns distinct_dataset_columns) auto
  let ?df = "map (\<lambda>name.
            (name, concat (map (\<lambda>df. case map_of df name of
                                        None \<Rightarrow> replicate (nrows df) NaN
                                      | Some cells \<Rightarrow> cells) [frame r1, frame r2, frame r3])))
            dataset_columns"
  have ids: "map_of ?df ''patient_id''
         = Some (replicate 864 (Str ''PATIENT_0001'') @ replicate 864 (Str ''PATIENT_0002'')
                 @ replicate 864 (Str ''PATIENT_0003''))"
    unfolding map_of_tabulate
    using p1 p2 p3 by (simp add: patient_names dataset_columns_def numeral_2_eq_2)
  have rows: "nrows ?df = 3 * 864"
    using p1 p2 p3 by (simp add: nrows_def dataset_columns_def)
  have "generate_batch_dataset 3 72 w = Inr (?df, world_after r3)"
    by (simp add: generate_batch_dataset_def loop cat)
  with ids rows show ?thesis
    by blast
qed

lemma single_patient_72:
  assumes "unit_draws (np_random w)"
  shows "\<exists>r. complete_patient_run pid 72 5 w = Inr r
            \<and> generate_complete_patient_dataset pid 72 5 w = Inr (frame r, world_after r)
            \<and> nrows (frame r) = 864
            \<and> length (time_points_abg r) = 18 \<and> length (pH r) = 18 \<and> length (pco2 r) = 18
            \<and> length (po2 r) = 18 \<and> length (lactate r) = 18"
proof -
  from patient_run_72 [OF assms, of pid] obtain r where
    "complete_patient_run pid 72 5 w = Inr r" "nrows (frame r) = 864"
    "length (time_points_abg r) = 18" "length (pH r) = 18" "length (pco2 r) = 18"
    "length (po2 r) = 18" "length (lactate r) = 18"
    by blast
  then show ?thesis
    by (intro exI [of _ r]) (simp add: generate_complete_patient_dataset_def)
qed

lemma batch_of_three_ids:
  assumes "unit_draws (np_random w)"
  shows "\<exists>df w' ids. generate_batch_dataset 3 72 w = Inr (df, w')
            \<and> nrows df = 3 * 864
            \<and> map_of df ''patient_id'' = Some ids
            \<and> set ids = {Str ''PATIENT_0001'', Str ''PATIENT_0002'', Str ''PATIENT_0003''}
            \<and> card (set ids) = 3"
proof -
  let ?ids = "replicate 864 (Str ''PATIENT_0001'') @ replicate 864 (Str ''PATIENT_0002'')
                 @ replicate 864 (Str ''PATIENT_0003'')"
  from batch_of_three [OF assms] obtain df w' where
    b: "generate_batch_dataset 3 72 w = Inr (df, w')" "nrows df = 3 * 864"
    "map_of df ''patient_id'' = Some ?ids"
    by (elim exE conjE)
  have s: "set ?ids = {Str ''PATIENT_0001'', Str ''PATIENT_0002'', Str ''PATIENT_0003''}"
    by (simp add: insert_commute)
  have c: "card {Str ''PATIENT_0001'', Str ''PATIENT_0002'', Str ''PATIENT_0003''} = 3"
    by simp
  show ?thesis
    apply (rule exI [of _ df], rule exI [of _ w'], rule exI [of _ ?ids])
    apply (intro conjI)
        apply (rule b(1))
       apply (rule b(2))
      apply (rule b(3))
     apply (rule s)
    apply (simp only: s c)
    done
qed

section \<open>Alignment of the blood-gas columns\<close>

lemma grid_arith:
  assumes "0 < step" "240 = step * Q"
  shows "(240 dvd int i * step) = (nat Q dvd i)" "nat (int i * step div 240) = i div nat Q"
proof -
  from assms have Q: "0 < Q"
    by (metis zero_less_mult_pos zero_less_numeral)
  have "(240 dvd int i * step) = (step * Q dvd step * int i)"
    by (simp add: assms(2) mult.commute)
  also have "\<dots> = (Q dvd int i)"
    using assms(1) by simp
  also have "\<dots> = (nat Q dvd i)"
    using Q by (metis int_dvd_int_iff nat_0_le order_less_imp_le)
  finally show "(240 dvd int i * step) = (nat Q dvd i)" .
  have "int i * step div 240 = (step * int i) div (step * Q)"
    by (simp add: assms(2) mult.commute)
  also have "\<dots> = int i div Q"
    using assms(1) by simp
  also have "\<dots> = int (i div nat Q)"
    using Q by (simp add: zdiv_int)
  finally show "nat (int i * step div 240) = i div nat Q"
    by simp
qed

lemma carried_dividing_step:
  assumes step: "0 < step" "step dvd 240" and h: "0 \<le> hours" "hours mod 4 = 0"
    and len: "length vs = nat (hours div 4)"
  shows "ffill (map (\<lambda>i. if 240 dvd (int i * step)
                        then map Num vs ! nat (int i * step div 240) else NaN)
                  [0..<length (arange (hours * 60) step)])
         = map (\<lambda>i. Num (vs ! nat (int i * step div 240)))
             [0..<length (arange (hours * 60) step)]"
proof -
  let ?n = "length (arange (hours * 60) step)"
  from step(2) obtain Q where Q: "240 = step * Q" ..
  with step(1) have Qpos: "0 < Q"
    by (metis zero_less_mult_pos zero_less_numeral)
  note ga = grid_arith [OF step(1) Q]
  have inb: "nat (int i * step div 240) < length vs" if "i < ?n" for i
  proof -
    from arange_below [OF step(1) that] have "int i * step < hours * 60" .
    moreover have "0 \<le> int i * step" using step(1) by simp
    ultimately show ?thesis
      using h len by auto
  qed
  have A: "map (\<lambda>i. if 240 dvd (int i * step)
                   then map Num vs ! nat (int i * step div 240) else NaN) [0..<?n]
        = map (\<lambda>i. if nat Q dvd i then Num (vs ! (i div nat Q)) else NaN) [0..<?n]"
    by (rule map_cong [OF refl]) (use inb in \<open>simp add: ga\<close>)
  have B: "ffill (map (\<lambda>i. if nat Q dvd i then Num (vs ! (i div nat Q)) else NaN) [0..<?n])
        = map (\<lambda>i. Num (vs ! (i div nat Q))) [0..<?n]"
    using Qpos by (intro ffill_grid [where c = "\<lambda>k. Num (vs ! k)"]) simp_all
  have C: "map (\<lambda>i. Num (vs ! (i div nat Q))) [0..<?n]
        = map (\<lambda>i. Num (vs ! nat (int i * step div 240))) [0..<?n]"
    by (simp add: ga)
  show ?thesis
    unfolding A B C ..
qed

lemma run_values:
  assumes run: "complete_patient_run pid hours step w = Inr r"
  shows "\<exists>k. generate_baseline_parameters pid (np_random w)
             = Inr (baseline_params r, skip 12 (np_random w))
     \<and> (\<exists>w1. generate_cooling_protocol (hie_severity (baseline_params r))
            (baseline_rectal_temp (baseline_params r))
            (w\<lparr>np_random := skip 12 (np_random w)\<rparr>) = Inr (protocol r, w1))
     \<and> cooling_rate (protocol r) \<noteq> 0
     \<and> rectal_temps r =
         fst (temperature_loop (baseline_temp (protocol r)) (target_temp (protocol r))
           (cooling_rate (protocol r) / 60)
           (py_int (\<bar>baseline_temp (protocol r) - target_temp (protocol r)\<bar>
                      / (cooling_rate (protocol r) / 60 / 60) / real_of_int step))
           0 (arange (hours * 60) step) (skip 21 (np_random w)))
     \<and> pH r = map (\<lambda>(a, b, c, d). a)
           (abg_samples hours (hie_severity (baseline_params r)) (skip k (np_random w)))
     \<and> pco2 r = map (\<lambda>(a, b, c, d). b)
           (abg_samples hours (hie_severity (baseline_params r)) (skip k (np_random w)))
     \<and> po2 r = map (\<lambda>(a, b, c, d). c)
           (abg_samples hours (hie_severity (baseline_params r)) (skip k (np_random w)))
     \<and> lactate r = map (\<lambda>(a, b, c, d). d)
           (abg_samples hours (hie_severity (baseline_params r)) (skip k (np_random w)))"
proof (cases rule: run_shape [of pid hours step w])
  case (shape bp pr w1 temps hrs sys dia sats abg g5)
  from shape(14) obtain k where k: "abg = abg_samples hours (hie_severity bp) (skip k (np_random w))" ..
  from run [unfolded shape(1)] have c: "\<not> (step = 0 \<or> cooling_rate pr = 0)"
    by (rule ite_Inr [THEN conjunct1])
  from run [unfolded shape(1)] have r: "r = \<lparr>baseline_params = bp, protocol = pr,
      time_points_vitals = arange (hours * 60) step,
      rectal_temps = temps, heart_rates = hrs, systolic_bp = sys, diastolic_bp = dia,
      spo2 = sats, time_points_abg = arange hours 4,
      pH = map (\<lambda>(a, b, c, d). a) abg, pco2 = map (\<lambda>(a, b, c, d). b) abg,
      po2 = map (\<lambda>(a, b, c, d). c) abg, lactate = map (\<lambda>(a, b, c, d). d) abg,
      frame = frame r, world_after = w1\<lparr>np_random := g5\<rparr>\<rparr>"
    by (auto dest!: ite_Inr)
  have f: "baseline_params r = bp" "protocol r = pr" "rectal_temps r = temps"
    "pH r = map (\<lambda>(a, b, c, d). a) abg" "pco2 r = map (\<lambda>(a, b, c, d). b) abg"
    "po2 r = map (\<lambda>(a, b, c, d). c) abg" "lactate r = map (\<lambda>(a, b, c, d). d) abg"
    by (subst r, simp)+
  show ?thesis
    unfolding f
    apply (rule exI [of _ k])
    apply (intro conjI)
           apply (rule shape(2))
          apply (rule exI, rule shape(4))
         apply (use c in simp)
        apply (rule shape(7))
       apply (simp_all only: k)
    done
qed

lemma const_rng_skip [simp]:
  "unif (const_rng u z) = (\<lambda>n. u)" "gauss (const_rng u z) = (\<lambda>n. z)"
  by (simp_all add: const_rng_def)

lemma unit_draws_const [simp]: "unit_draws (const_rng (1/2) 0)"
  by (simp add: unit_draws_def)

lemma np_random_sample_world [simp]: "np_random (sample_world g) = g"
  by (simp add: sample_world_def)

lemma run_severity:
  assumes "complete_patient_run pid hours step w = Inr r"
  shows "hie_severity (baseline_params r)
         = fst (choice3 ''mild'' ''moderate'' ''severe'' (skip 3 (np_random w)))"
    and "baseline_rectal_temp (baseline_params r) = fst (uniform 36.8 37.4 (skip 9 (np_random w)))"
proof -
  from run_values [OF assms] have
    "generate_baseline_parameters pid (np_random w)
       = Inr (baseline_params r, skip 12 (np_random w))"
    by blast
  then have b: "baseline_params r = fst (projr (generate_baseline_parameters pid (np_random w)))"
    by simp
  show "hie_severity (baseline_params r)
         = fst (choice3 ''mild'' ''moderate'' ''severe'' (skip 3 (np_random w)))"
    unfolding b by (simp add: baseline_explicit)
  show "baseline_rectal_temp (baseline_params r) = fst (uniform 36.8 37.4 (skip 9 (np_random w)))"
    unfolding b by (simp add: baseline_explicit)
qed

lemma abg_samples_example:
  "abg_samples 8 ''moderate'' (skip k (const_rng (1/2) 0))
     = [(7.325, 47, 77.5, 4), (7.32475, 47.01, 77.475, 3.6)]"
  by (simp add: abg_samples_def abg_baselines_def numeral_2_eq_2 uniform_def advance_def
      Let_def)

text \<open>
  Claim C3 as stated fails: with \<^verbatim>\<open>time_step_minutes = 90\<close> and 8 hours the row at 270
  minutes (4.5 hours) holds the pH of the sample taken at 0 hours, although the sample of
  the 4-hour grid point is the most recent one at or before the row.
\<close>

theorem blood_gas_stale_counterexample:
  "map_sum id (\<lambda>r. (time_points_vitals r ! 3, time_points_abg r, pH r,
                     cell_at (frame r) ''pH'' 3))
     (complete_patient_run ''PATIENT_0001'' 8 90 (sample_world (const_rng (1/2) 0)))
   = Inr (270, [0, 4], [7.325, 7.32475], Some (Num 7.325))"
proof -
  let ?w = "sample_world (const_rng (1/2) 0)"
  obtain r where run: "complete_patient_run ''PATIENT_0001'' 8 90 ?w = Inr r"
    using complete_patient_run_ok [of ?w 90 8 "''PATIENT_0001''"] by auto
  have sev: "hie_severity (baseline_params r) = ''moderate''"
    unfolding run_severity [OF run] by (simp add: choice3_def)
  from run_values [OF run] obtain k where
    "pH r = map (\<lambda>(a, b, c, d). a) (abg_samples 8 ''moderate'' (skip k (const_rng (1/2) 0)))"
    unfolding sev by auto
  then have ph: "pH r = [7.325, 7.32475]"
    by (simp add: abg_samples_example)
  have n: "length (arange 480 90) = 6" "arange 480 90 ! 3 = 270" "arange 8 4 = [0, 4]"
    by (simp_all add: arange_def upt_rec)
  note fr = run_frame [OF run zero_less_numeral]
  have a: "time_points_vitals r ! 3 = 270" "time_points_abg r = [0, 4]"
    using fr by (simp_all add: n)
  have "map_of (frame r) ''pH'' = Some (replicate 6 (Num 7.325))"
    using fr by (simp add: n ph ffill_def upt_rec numeral_eq_Suc)
  then have c: "cell_at (frame r) ''pH'' 3 = Some (Num 7.325)"
    by (simp add: cell_at_def)
  show ?thesis
    by (simp add: run a ph c)
qed

lemma last_on_grid_le: "last_on_grid step i \<le> i"
  by (induction i) auto

lemma last_on_grid_dvd: "240 dvd int (last_on_grid step i) * step"
  by (induction i) auto

lemma last_on_grid_max: "m \<le> i \<Longrightarrow> 240 dvd int m * step \<Longrightarrow> m \<le> last_on_grid step i"
proof (induction i)
  case 0
  then show ?case by simp
next
  case (Suc i)
  show ?case
  proof (cases "m = Suc i")
    case True
    with Suc.prems show ?thesis by simp
  next
    case False
    with Suc.prems have "m \<le> i" by simp
    from Suc.IH [OF this Suc.prems(2)] show ?thesis
      using last_on_grid_le [of step i] by auto
  qed
qed

lemma ffill_last_on_grid:
  assumes "\<And>k. k < n \<Longrightarrow> 240 dvd int k * step \<Longrightarrow> c k \<noteq> NaN"
  shows "ffill (map (\<lambda>i. if 240 dvd int i * step then c i else NaN) [0..<n])
         = map (\<lambda>i. c (last_on_grid step i)) [0..<n]"
  using assms
proof (induction n)
  case 0
  show ?case by (simp add: ffill_def)
next
  case (Suc n)
  let ?f = "\<lambda>i. if 240 dvd int i * step then c i else NaN"
  let ?g = "\<lambda>i. c (last_on_grid step i)"
  have IH: "ffill (map ?f [0..<n]) = map ?g [0..<n]"
    using Suc.prems by (intro Suc.IH) simp_all
  have "ffill (map ?f [0..<Suc n]) = ffill_from NaN (map ?f [0..<n] @ [?f n])"
    by (simp add: ffill_def)
  also have "\<dots> = map ?g [0..<n] @ ffill_from (last (NaN # map ?g [0..<n])) [?f n]"
    using IH by (simp only: ffill_from_append ffill_def)
  also have "ffill_from (last (NaN # map ?g [0..<n])) [?f n] = [?g n]"
  proof (cases "240 dvd int n * step")
    case True
    with Suc.prems [of n] have "c n \<noteq> NaN" by simp
    moreover from True have "last_on_grid step n = n"
      by (cases n) simp_all
    ultimately show ?thesis using True by simp
  next
    case False
    then obtain m where m: "n = Suc m"
      by (cases n) auto
    with False show ?thesis by simp
  qed
  finally show ?case by simp
qed

lemma carried_any_step:
  assumes step: "0 < step" and h: "0 \<le> hours" "hours mod 4 = 0"
    and len: "length vs = nat (hours div 4)"
  shows "ffill (map (\<lambda>i. if 240 dvd (int i * step)
                        then map Num vs ! nat (int i * step div 240) else NaN)
                  [0..<length (arange (hours * 60) step)])
         = map (\<lambda>i. Num (vs ! nat (int (last_on_grid step i) * step div 240)))
             [0..<length (arange (hours * 60) step)]"
proof -
  let ?n = "length (arange (hours * 60) step)"
  let ?c = "\<lambda>i. map Num vs ! nat (int i * step div 240)"
  have inb: "nat (int i * step div 240) < length vs" if "i < ?n" for i
  proof -
    from arange_below [OF step that] have "int i * step < hours * 60" .
    moreover have "0 \<le> int i * step" using step by simp
    ultimately show ?thesis
      using h len by auto
  qed
  have A: "ffill (map (\<lambda>i. if 240 dvd int i * step then ?c i else NaN) [0..<?n])
           = map (\<lambda>i. ?c (last_on_grid step i)) [0..<?n]"
    by (rule ffill_last_on_grid) (use inb in simp)
  have B: "map (\<lambda>i. ?c (last_on_grid step i)) [0..<?n]
           = map (\<lambda>i. Num (vs ! nat (int (last_on_grid step i) * step div 240))) [0..<?n]"
  proof (rule map_cong [OF refl])
    fix i assume "i \<in> set [0..<?n]"
    then have "last_on_grid step i < ?n"
      using last_on_grid_le [of step i] by simp
    from inb [OF this] show "?c (last_on_grid step i)
        = Num (vs ! nat (int (last_on_grid step i) * step div 240))"
      by simp
  qed
  show ?thesis
    unfolding A B ..
qed

lemma last_on_grid_recent:
  assumes step: "0 < step" and d: "step dvd 240 * (int i * step div 240)"
  shows "int (last_on_grid step i) * step = 240 * (int i * step div 240)"
proof -
  let ?t = "int i * step"
  let ?G = "240 * (?t div 240)"
  let ?j = "last_on_grid step i"
  have t0: "0 \<le> ?t" using step by simp
  have G: "0 \<le> ?G" "?G \<le> ?t" using t0 by auto
  from d obtain m where m: "?G = step * m" ..
  with G step have m0: "0 \<le> m"
    by (metis mult.commute zero_le_mult_iff not_less order_less_imp_le)
  from m G(2) step have "step * m \<le> step * int i"
    by (simp add: mult.commute)
  with step have mi: "m \<le> int i" by simp
  have "240 dvd int (nat m) * step"
    using m0 m by (metis dvd_triv_left mult.commute nat_0_le)
  with mi m0 have "nat m \<le> ?j"
    by (intro last_on_grid_max) auto
  then have lower: "?G \<le> int ?j * step"
    using m m0 step by (metis mult.commute mult_left_mono nat_le_iff order_less_imp_le)
  have "int ?j * step \<le> ?t"
    using last_on_grid_le [of step i] step by (simp add: mult_right_mono)
  moreover from last_on_grid_dvd [of step i] obtain q where q: "int ?j * step = 240 * q" ..
  ultimately have "240 * q \<le> ?t" by simp
  then have "q \<le> ?t div 240"
    by (simp add: zdiv_mono1 [of "240 * q" ?t 240, simplified])
  then have "int ?j * step \<le> ?G"
    using q by simp
  with lower show ?thesis by simp
qed

text \<open>
  Claim C3, as amended. Whenever \<^verbatim>\<open>generate_complete_patient_dataset\<close> returns, with any
  positive time step, every row \<open>i\<close> of the frame holds in the columns \<^verbatim>\<open>pH\<close>,
  \<^verbatim>\<open>pCO2_mmhg\<close>, \<^verbatim>\<open>pO2_mmhg\<close> and \<^verbatim>\<open>lactate_mmol\<close> the values of one blood-gas sample
  \<open>k\<close>: the sample taken at the time of the last row at or before \<open>i\<close> whose time lies on
  the 4-hour grid. Its timestamp is never later than the row's own time (no look-ahead),
  and no row is left without a sample, since the first sample is taken at the first row's
  time. When the most recent grid point at or before the row is itself a vitals time, that
  is when the time step divides \<open>240 * (t div 240)\<close> for the row's time \<open>t\<close> in minutes,
  sample \<open>k\<close> is the sample of that most recent grid point, less than four hours before the
  row; this is so for every row when the time step divides 240 (as the default 5 does) or
  is a multiple of 240.
\<close>

theorem blood_gas_carried_forward:
  assumes run: "complete_patient_run pid hours step w = Inr r"
    and step: "0 < step"
    and i: "i < nrows (frame r)"
  shows "generate_complete_patient_dataset pid hours step w = Inr (frame r, world_after r)
     \<and> cell_at (frame r) ''time_minutes'' i = Some (Num (real_of_int (time_points_vitals r ! i)))
     \<and> last_on_grid step i \<le> i
     \<and> nat (time_points_vitals r ! last_on_grid step i div 240) < length (time_points_abg r)
     \<and> time_points_abg r ! nat (time_points_vitals r ! last_on_grid step i div 240) * 60
          = time_points_vitals r ! last_on_grid step i
     \<and> real_of_int (time_points_abg r ! nat (time_points_vitals r ! last_on_grid step i div 240))
          \<le> real_of_int (time_points_vitals r ! i) / 60
     \<and> cell_at (frame r) ''pH'' i
          = Some (Num (pH r ! nat (time_points_vitals r ! last_on_grid step i div 240)))
     \<and> cell_at (frame r) ''pCO2_mmhg'' i
          = Some (Num (pco2 r ! nat (time_points_vitals r ! last_on_grid step i div 240)))
     \<and> cell_at (frame r) ''pO2_mmhg'' i
          = Some (Num (po2 r ! nat (time_points_vitals r ! last_on_grid step i div 240)))
     \<and> cell_at (frame r) ''lactate_mmol'' i
          = Some (Num (lactate r ! nat (time_points_vitals r ! last_on_grid step i div 240)))
     \<and> (step dvd 240 * (time_points_vitals r ! i div 240) \<longrightarrow>
           nat (time_points_vitals r ! last_on_grid step i div 240)
             = nat (time_points_vitals r ! i div 240)
         \<and> real_of_int (time_points_vitals r ! i) / 60
             < real_of_int (time_points_abg r
                 ! nat (time_points_vitals r ! last_on_grid step i div 240)) + 4)
     \<and> (step dvd 240 \<or> 240 dvd step \<longrightarrow>
           step dvd 240 * (time_points_vitals r ! i div 240))"
proof -
  let ?n = "length (arange (hours * 60) step)"
  let ?j = "last_on_grid step i"
  from run_hours [OF run] have h: "0 \<le> hours" "hours mod 4 = 0"
    by simp_all
  note fr = run_frame [OF run step]
  from fr i have i': "i < ?n"
    by simp
  have ji: "?j \<le> i"
    by (rule last_on_grid_le)
  with i' have j': "?j < ?n"
    by simp
  have t: "time_points_vitals r ! i = int i * step"
    using fr i' by (simp add: arange_nth)
  have tj: "time_points_vitals r ! ?j = int ?j * step"
    using fr j' by (simp add: arange_nth)
  have tj0: "0 \<le> int ?j * step"
    using step by simp
  have tjlt: "int ?j * step < hours * 60"
    using step j' by (rule arange_below)
  have tji: "int ?j * step \<le> int i * step"
    using ji step by (simp add: mult_right_mono)
  let ?k = "nat (int ?j * step div 240)"
  have k: "?k < nat (hours div 4)"
    using tj0 tjlt h by auto
  have grid: "length (arange hours 4) = nat (hours div 4)"
    using h by (rule length_arange_grid)
  have tk: "arange hours 4 ! ?k = int ?k * 4"
    using k grid by (simp add: arange_nth)
  have exact: "int ?k * 240 = int ?j * step"
    using last_on_grid_dvd [of step i] tj0 by auto
  note cd = carried_any_step [OF step h]
  have c1: "cell_at (frame r) ''pH'' i = Some (Num (pH r ! ?k))"
    using fr i' by (simp add: cell_at_def cd)
  have c2: "cell_at (frame r) ''pCO2_mmhg'' i = Some (Num (pco2 r ! ?k))"
    using fr i' by (simp add: cell_at_def cd)
  have c3: "cell_at (frame r) ''pO2_mmhg'' i = Some (Num (po2 r ! ?k))"
    using fr i' by (simp add: cell_at_def cd)
  have c4: "cell_at (frame r) ''lactate_mmol'' i = Some (Num (lactate r ! ?k))"
    using fr i' by (simp add: cell_at_def cd)
  have tm: "cell_at (frame r) ''time_minutes'' i = Some (Num (real_of_int (int i * step)))"
    using fr i' by (simp add: cell_at_def arange_nth)
  have g: "generate_complete_patient_dataset pid hours step w = Inr (frame r, world_after r)"
    using run by (simp add: generate_complete_patient_dataset_def)
  have kk: "?k < length (time_points_abg r)"
    using fr k grid by simp
  have ex: "time_points_abg r ! ?k * 60 = int ?j * step"
    using fr tk exact by simp
  have b1: "real_of_int (time_points_abg r ! ?k) \<le> real_of_int (int i * step) / 60"
  proof -
    have "real_of_int (time_points_abg r ! ?k * 60) \<le> real_of_int (int i * step)"
      using ex tji by (simp only: of_int_le_iff)
    then show ?thesis by simp
  qed
  have recent: "?k = nat (int i * step div 240)
      \<and> real_of_int (int i * step) / 60 < real_of_int (time_points_abg r ! ?k) + 4"
    if d: "step dvd 240 * (int i * step div 240)"
  proof -
    from last_on_grid_recent [OF step d] have e: "int ?j * step = 240 * (int i * step div 240)" .
    then have keq: "?k = nat (int i * step div 240)"
      by simp
    have "int i * step < 240 * (int i * step div 240) + 240"
      by auto
    with e ex have "int i * step < time_points_abg r ! ?k * 60 + 240"
      by simp
    then have "real_of_int (int i * step) < real_of_int (time_points_abg r ! ?k * 60 + 240)"
      by (simp only: of_int_less_iff)
    then have "real_of_int (int i * step) / 60 < real_of_int (time_points_abg r ! ?k) + 4"
      by simp
    with keq show ?thesis by simp
  qed
  have cover: "step dvd 240 * (int i * step div 240)" if "step dvd 240 \<or> 240 dvd step"
  proof -
    from that show ?thesis
    proof
      assume "step dvd 240"
      then show ?thesis by simp
    next
      assume "240 dvd step"
      then have "240 dvd int i * step" by simp
      then have "240 * (int i * step div 240) = int i * step" by simp
      then show ?thesis by simp
    qed
  qed
  have R: "step dvd 240 * (int i * step div 240) \<longrightarrow>
      ?k = nat (int i * step div 240)
      \<and> real_of_int (int i * step) / 60 < real_of_int (time_points_abg r ! ?k) + 4"
    using recent by blast
  have C: "step dvd 240 \<or> 240 dvd step \<longrightarrow> step dvd 240 * (int i * step div 240)"
    using cover by blast
  show ?thesis
    unfolding t tj
    using g tm ji kk ex b1 c1 c2 c3 c4 R C
    by (intro conjI)
qed

theorem blood_gas_carried_forward_witness:
  "\<not> isl (complete_patient_run ''PATIENT_0001'' 8 120 (sample_world (const_rng (1/2) 0)))
   \<and> (0::int) < 120 \<and> (120::int) dvd 240
   \<and> 3 < nrows (frame (projr (complete_patient_run ''PATIENT_0001'' 8 120
                                 (sample_world (const_rng (1/2) 0)))))
   \<and> time_points_vitals (projr (complete_patient_run ''PATIENT_0001'' 8 120
                                 (sample_world (const_rng (1/2) 0)))) ! 3 = 360
   \<and> cell_at (frame (projr (complete_patient_run ''PATIENT_0001'' 8 120
                                 (sample_world (const_rng (1/2) 0))))) ''pH'' 3
       = Some (Num (pH (projr (complete_patient_run ''PATIENT_0001'' 8 120
                                 (sample_world (const_rng (1/2) 0)))) ! 1))
   \<and> real_of_int (time_points_abg (projr (complete_patient_run ''PATIENT_0001'' 8 120
                                 (sample_world (const_rng (1/2) 0)))) ! 1) \<le> 6
   \<and> 6 < real_of_int (time_points_abg (projr (complete_patient_run ''PATIENT_0001'' 8 120
                                 (sample_world (const_rng (1/2) 0)))) ! 1) + 4"
proof -
  let ?w = "sample_world (const_rng (1/2) 0)"
  obtain r where run: "complete_patient_run ''PATIENT_0001'' 8 120 ?w = Inr r"
    using complete_patient_run_ok [of ?w 120 8 "''PATIENT_0001''"] by auto
  have s: "(0::int) < 120"
    by simp
  have n: "length (arange 480 120) = 4" "arange 480 120 ! 3 = 360" "arange 480 120 ! 2 = 240"
    by (simp_all add: arange_def upt_rec)
  have j: "last_on_grid 120 3 = 2"
    by (simp add: numeral_3_eq_3)
  note fr = run_frame [OF run s]
  have i: "3 < nrows (frame r)"
    using fr by (simp add: n)
  have t: "time_points_vitals r ! 3 = 360" "time_points_vitals r ! 2 = 240"
    using fr by (simp_all add: n)
  from blood_gas_carried_forward [OF run s i] show ?thesis
    unfolding j t using i by (simp add: run t)
qed

lemma carried_72:
  "length vs = 18 \<Longrightarrow>
   ffill (map (\<lambda>i. if 240 dvd int i * 5 then map Num vs ! nat (int i * 5 div 240) else NaN)
            [0..<864])
   = map (\<lambda>i. Num (vs ! (i div 48))) [0..<864]"
  using carried_dividing_step [of 5 72 vs]
  by (simp add: length_arange_72 nat_div_distrib)

text \<open>
  Claim C7. For every process state whose random source yields unit-interval samples,
  every patient id (and so every severity drawn): \<^verbatim>\<open>generate_complete_patient_dataset\<close>
  with 72 hours and the 5-minute cadence returns a frame of exactly 864 rows, built from
  exactly 18 blood-gas samples: there are 18 grid points and 18 values of each of the four
  measurements, and in each of the frame's columns \<^verbatim>\<open>pH\<close>, \<^verbatim>\<open>pCO2_mmhg\<close>, \<^verbatim>\<open>pO2_mmhg\<close> and
  \<^verbatim>\<open>lactate_mmol\<close> row \<open>i\<close> holds sample \<open>i div 48\<close>, so every one of the 18 samples fills
  48 consecutive rows. \<^verbatim>\<open>generate_batch_dataset\<close> with 3 patients and 72 hours returns a
  frame of exactly \<open>3 * 864\<close> rows whose \<^verbatim>\<open>patient_id\<close> column holds exactly 3 distinct
  identifiers.
\<close>

theorem seventy_two_hour_dataset_sizes:
  assumes "unit_draws (np_random w)"
  shows "(\<exists>r. complete_patient_run pid 72 5 w = Inr r
            \<and> generate_complete_patient_dataset pid 72 5 w = Inr (frame r, world_after r)
            \<and> nrows (frame r) = 864
            \<and> length (time_points_abg r) = 18 \<and> length (pH r) = 18 \<and> length (pco2 r) = 18
            \<and> length (po2 r) = 18 \<and> length (lactate r) = 18
            \<and> map_of (frame r) ''time_minutes''
                 = Some (map (\<lambda>i. Num (real (i * 5))) [0..<864])
            \<and> map_of (frame r) ''pH'' = Some (map (\<lambda>i. Num (pH r ! (i div 48))) [0..<864])
            \<and> map_of (frame r) ''pCO2_mmhg''
                 = Some (map (\<lambda>i. Num (pco2 r ! (i div 48))) [0..<864])
            \<and> map_of (frame r) ''pO2_mmhg''
                 = Some (map (\<lambda>i. Num (po2 r ! (i div 48))) [0..<864])
            \<and> map_of (frame r) ''lactate_mmol''
                 = Some (map (\<lambda>i. Num (lactate r ! (i div 48))) [0..<864]))
       \<and> (\<exists>df w' ids. generate_batch_dataset 3 72 w = Inr (df, w')
            \<and> nrows df = 3 * 864
            \<and> map_of df ''patient_id'' = Some ids
            \<and> set ids = {Str ''PATIENT_0001'', Str ''PATIENT_0002'', Str ''PATIENT_0003''}
            \<and> card (set ids) = 3)"
proof (rule conjI)
  from single_patient_72 [OF assms, of pid] obtain r where
    run: "complete_patient_run pid 72 5 w = Inr r"
    and rest: "generate_complete_patient_dataset pid 72 5 w = Inr (frame r, world_after r)"
      "nrows (frame r) = 864" "length (time_points_abg r) = 18" "length (pH r) = 18"
      "length (pco2 r) = 18" "length (po2 r) = 18" "length (lactate r) = 18"
    by (elim exE conjE)
  note fr = run_frame [OF run zero_less_numeral]
  have tm: "map_of (frame r) ''time_minutes'' = Some (map (\<lambda>i. Num (real (i * 5))) [0..<864])"
    using fr by (simp add: arange_def)
  have c1: "map_of (frame r) ''pH'' = Some (map (\<lambda>i. Num (pH r ! (i div 48))) [0..<864])"
    using fr rest by (simp add: carried_72 length_arange_72)
  have c2: "map_of (frame r) ''pCO2_mmhg'' = Some (map (\<lambda>i. Num (pco2 r ! (i div 48))) [0..<864])"
    using fr rest by (simp add: carried_72 length_arange_72)
  have c3: "map_of (frame r) ''pO2_mmhg'' = Some (map (\<lambda>i. Num (po2 r ! (i div 48))) [0..<864])"
    using fr rest by (simp add: carried_72 length_arange_72)
  have c4: "map_of (frame r) ''lactate_mmol''
              = Some (map (\<lambda>i. Num (lactate r ! (i div 48))) [0..<864])"
    using fr rest by (simp add: carried_72 length_arange_72)
  show "\<exists>r. complete_patient_run pid 72 5 w = Inr r
            \<and> generate_complete_patient_dataset pid 72 5 w = Inr (frame r, world_after r)
            \<and> nrows (frame r) = 864
            \<and> length (time_points_abg r) = 18 \<and> length (pH r) = 18 \<and> length (pco2 r) = 18
            \<and> length (po2 r) = 18 \<and> length (lactate r) = 18
            \<and> map_of (frame r) ''time_minutes''
                 = Some (map (\<lambda>i. Num (real (i * 5))) [0..<864])
            \<and> map_of (frame r) ''pH'' = Some (map (\<lambda>i. Num (pH r ! (i div 48))) [0..<864])
            \<and> map_of (frame r) ''pCO2_mmhg''
                 = Some (map (\<lambda>i. Num (pco2 r ! (i div 48))) [0..<864])
            \<and> map_of (frame r) ''pO2_mmhg''
                 = Some (map (\<lambda>i. Num (po2 r ! (i div 48))) [0..<864])
            \<and> map_of (frame r) ''lactate_mmol''
                 = Some (map (\<lambda>i. Num (lactate r ! (i div 48))) [0..<864])"
    using run rest tm c1 c2 c3 c4 by (intro exI [of _ r] conjI)
next
  show "\<exists>df w' ids. generate_batch_dataset 3 72 w = Inr (df, w')
            \<and> nrows df = 3 * 864
            \<and> map_of df ''patient_id'' = Some ids
            \<and> set ids = {Str ''PATIENT_0001'', Str ''PATIENT_0002'', Str ''PATIENT_0003''}
            \<and> card (set ids) = 3"
    by (rule batch_of_three_ids [OF assms])
qed

theorem seventy_two_hour_dataset_sizes_witness:
  "unit_draws (np_random (sample_world (const_rng (1/2) 0)))
   \<and> \<not> isl (generate_complete_patient_dataset ''PATIENT_0001'' 72 5
               (sample_world (const_rng (1/2) 0)))
   \<and> nrows (fst (projr (generate_complete_patient_dataset ''PATIENT_0001'' 72 5
               (sample_world (const_rng (1/2) 0))))) = 864
   \<and> \<not> isl (generate_batch_dataset 3 72 (sample_world (const_rng (1/2) 0)))
   \<and> nrows (fst (projr (generate_batch_dataset 3 72 (sample_world (const_rng (1/2) 0)))))
       = 2592"
proof -
  let ?w = "sample_world (const_rng (1/2) 0)"
  have u: "unit_draws (np_random ?w)"
    by simp
  from seventy_two_hour_dataset_sizes [OF u, of "''PATIENT_0001''"] u show ?thesis
    by clarsimp
qed

section \<open>The desaturation window\<close>

lemma dip_window_default: "in_dip_window 5 i = (i mod 240 < 120)"
proof -
  have f: "\<lfloor>real i / 240\<rfloor> = int (i div 240)"
    using floor_divide_of_nat_eq [of i 240, where ?'a = real] by simp
  have "real i = real (240 * (i div 240) + i mod 240)"
    by simp
  then have "real i = 240 * real (i div 240) + real (i mod 240)"
    by (simp only: of_nat_add of_nat_mult of_nat_numeral)
  then have e: "real i - 240 * real (i div 240) = real (i mod 240)"
    by linarith
  have "py_fmod (real i) 240 = real i - 240 * real (i div 240)"
    by (simp add: py_fmod_def f)
  with e have "py_fmod (real i) 240 = real (i mod 240)"
    by simp
  then show ?thesis
    by (simp add: in_dip_window_def)
qed

text \<open>
  Claim C6 (the code departs from it). With the default 5-minute time step the test of
  line 211 is \<open>i % 240.0 < 120.0\<close> on the sample index: a dip is subtracted at the first
  120 samples of every 240, the first 10 hours of a 20-hour cycle, not at the first half of
  each 20-minute cycle. In a 20-minute recording with the distress flag set all four
  samples (0, 5, 10 and 15 minutes) receive the dip, also those at 10 and 15 minutes;
  with the flag unset none does.
\<close>

theorem dip_window_spans_twenty_hours:
  "in_dip_window 5 i = (i mod 240 < 120)
   \<and> in_dip_window 5 2 \<and> in_dip_window 5 3
   \<and> map_sum id fst (generate_oxygen_saturation_data 97 20 5 True (const_rng (1/3) 0))
       = Inr ([0, 5, 10, 15], [94, 94, 94, 94])
   \<and> map_sum id fst (generate_oxygen_saturation_data 97 20 5 False (const_rng (1/3) 0))
       = Inr ([0, 5, 10, 15], [97, 97, 97, 97])"
proof -
  have a: "arange 20 5 = [0, 5, 10, 15]"
    by (simp add: arange_def upt_rec)
  have w: "in_dip_window 5 0" "in_dip_window 5 (Suc 0)" "in_dip_window 5 (Suc (Suc 0))"
    "in_dip_window 5 (Suc (Suc (Suc 0)))" "in_dip_window 5 2" "in_dip_window 5 3"
    by (simp_all add: dip_window_default)
  have t: "map_sum id fst (generate_oxygen_saturation_data 97 20 5 True (const_rng (1/3) 0))
       = Inr ([0, 5, 10, 15], [94, 94, 94, 94])"
    by (simp add: generate_oxygen_saturation_data_def a w Let_def uniform_def normal_def
        advance_def clip_def)
  have f: "map_sum id fst (generate_oxygen_saturation_data 97 20 5 False (const_rng (1/3) 0))
       = Inr ([0, 5, 10, 15], [97, 97, 97, 97])"
    by (simp add: generate_oxygen_saturation_data_def a Let_def uniform_def normal_def
        advance_def clip_def)
  show ?thesis
    using dip_window_default [of i] w t f by (intro conjI)
qed

section \<open>The cooling phase in the pipeline\<close>

lemma temperature_loop_cooling:
  "i < length tps \<Longrightarrow> int (j + i) < k \<Longrightarrow>
   fst (temperature_loop b t c k j tps g) ! i
     = clip (b - (c / 60 * real_of_int (tps ! i)) + 0.05 * gauss g (pos g + i))
         (t - 0.5) (b + 0.5)"
proof (induction tps arbitrary: i j g)
  case Nil
  then show ?case by simp
next
  case (Cons tp tps)
  show ?case
  proof (cases i)
    case 0
    with Cons.prems show ?thesis
      by (simp add: Let_def split_def normal_def)
  next
    case (Suc i')
    with Cons.prems have "i' < length tps" "int (Suc j + i') < k"
      by simp_all
    from Cons.IH [OF this, of "skip 1 g"] Suc show ?thesis
      by (simp add: Let_def split_def snd_draws)
  qed
qed

lemma run_time_points:
  assumes run: "complete_patient_run pid hours step w = Inr r"
  shows "time_points_vitals r = arange (hours * 60) step"
    and "length (rectal_temps r) = length (arange (hours * 60) step)"
proof -
  have "time_points_vitals r = arange (hours * 60) step
        \<and> length (rectal_temps r) = length (arange (hours * 60) step)"
  proof (cases rule: run_shape [of pid hours step w])
    case (shape bp pr w1 temps hrs sys dia sats abg g5)
    from run [unfolded shape(1)] have r: "r = \<lparr>baseline_params = bp, protocol = pr,
        time_points_vitals = arange (hours * 60) step,
        rectal_temps = temps, heart_rates = hrs, systolic_bp = sys, diastolic_bp = dia,
        spo2 = sats, time_points_abg = arange hours 4,
        pH = map (\<lambda>(a, b, c, d). a) abg, pco2 = map (\<lambda>(a, b, c, d). b) abg,
        po2 = map (\<lambda>(a, b, c, d). c) abg, lactate = map (\<lambda>(a, b, c, d). d) abg,
        frame = frame r, world_after = w1\<lparr>np_random := g5\<rparr>\<rparr>"
      by (auto dest!: ite_Inr)
    have "time_points_vitals r = arange (hours * 60) step" "rectal_temps r = temps"
      by (subst r, simp)+
    with shape(8) show ?thesis
      by simp
  qed
  then show "time_points_vitals r = arange (hours * 60) step"
    and "length (rectal_temps r) = length (arange (hours * 60) step)"
    by simp_all
qed

text \<open>
  Claim C5 (the code departs from it). \<^verbatim>\<open>generate_complete_patient_dataset\<close> passes the
  protocol's cooling rate divided by 60 (the rate per minute, as the docstring of
  \<^verbatim>\<open>simulate_rectal_temperature\<close> asks), and \<^verbatim>\<open>simulate_rectal_temperature\<close> divides it
  by 60 again. So in every run, at a sample \<open>i\<close> of the cooling phase whose jitter draw is
  zero, the temperature written is the baseline minus the protocol's cooling rate divided
  by 3600, not by 60, times the elapsed minutes (clipped), and the cooling phase lasts
  until that sixty times slower decay reaches the target.
\<close>

theorem cooling_rate_divided_twice:
  assumes run: "complete_patient_run pid hours step w = Inr r"
    and i: "i < length (time_points_vitals r)"
    and phase: "int i < py_int (\<bar>baseline_temp (protocol r) - target_temp (protocol r)\<bar>
                               / (cooling_rate (protocol r) / 3600) / real_of_int step)"
    and quiet: "gauss (np_random w) (pos (np_random w) + 21 + i) = 0"
  shows "rectal_temps r ! i
     = clip (baseline_temp (protocol r)
              - cooling_rate (protocol r) / 3600 * real_of_int (time_points_vitals r ! i))
         (target_temp (protocol r) - 0.5) (baseline_temp (protocol r) + 0.5)"
proof -
  let ?b = "baseline_temp (protocol r)" and ?t = "target_temp (protocol r)"
  let ?c = "cooling_rate (protocol r)"
  let ?k = "py_int (\<bar>?b - ?t\<bar> / (?c / 60 / 60) / real_of_int step)"
  let ?tps = "arange (hours * 60) step"
  from run_values [OF run] have
    temps: "rectal_temps r = fst (temperature_loop ?b ?t (?c / 60) ?k 0 ?tps
                                    (skip 21 (np_random w)))"
    by blast
  note tp = run_time_points(1) [OF run]
  from i have i': "i < length ?tps"
    by (simp add: tp)
  from phase have k: "int (0 + i) < ?k"
    by simp
  have "rectal_temps r ! i
        = clip (?b - (?c / 60 / 60 * real_of_int (?tps ! i))
                 + 0.05 * gauss (skip 21 (np_random w)) (pos (skip 21 (np_random w)) + i))
            (?t - 0.5) (?b + 0.5)"
    unfolding temps by (rule temperature_loop_cooling [OF i' k])
  with quiet show ?thesis
    by (simp add: tp)
qed

lemma cooling_protocol_example:
  "map_sum id (\<lambda>(p, v). (target_temp p, cooling_rate p, baseline_temp p))
     (generate_cooling_protocol ''moderate'' b (w\<lparr>np_random := skip k (const_rng (1/2) 0)\<rparr>))
   = Inr (33.25, 0.2, b)"
  by (simp add: generate_cooling_protocol_def uniform_def advance_def datetime_now_def Let_def)

theorem cooling_rate_divided_twice_witness:
  "\<not> isl (complete_patient_run ''PATIENT_0001'' 4 60 (sample_world (const_rng (1/2) 0)))
   \<and> 1 < length (time_points_vitals (projr (complete_patient_run ''PATIENT_0001'' 4 60
                                  (sample_world (const_rng (1/2) 0)))))
   \<and> time_points_vitals (projr (complete_patient_run ''PATIENT_0001'' 4 60
                                  (sample_world (const_rng (1/2) 0)))) ! 1 = 60
   \<and> cooling_rate (protocol (projr (complete_patient_run ''PATIENT_0001'' 4 60
                                  (sample_world (const_rng (1/2) 0))))) = 0.2
   \<and> baseline_temp (protocol (projr (complete_patient_run ''PATIENT_0001'' 4 60
                                  (sample_world (const_rng (1/2) 0))))) = 37.1
   \<and> target_temp (protocol (projr (complete_patient_run ''PATIENT_0001'' 4 60
                                  (sample_world (const_rng (1/2) 0))))) = 33.25
   \<and> rectal_temps (projr (complete_patient_run ''PATIENT_0001'' 4 60
                                  (sample_world (const_rng (1/2) 0)))) ! 1
       = 37.1 - 0.2 / 3600 * 60
   \<and> (37.1 :: real) - 0.2 / 3600 * 60 \<noteq> 37.1 - 0.2 / 60 * 60"
proof -
  let ?w = "sample_world (const_rng (1/2) 0)"
  obtain r where run: "complete_patient_run ''PATIENT_0001'' 4 60 ?w = Inr r"
    using complete_patient_run_ok [of ?w 60 4 "''PATIENT_0001''"] by auto
  have sev: "hie_severity (baseline_params r) = ''moderate''"
    unfolding run_severity [OF run] by (simp add: choice3_def)
  have bt: "baseline_rectal_temp (baseline_params r) = 37.1"
    unfolding run_severity [OF run] by (simp add: uniform_def)
  from run_values [OF run] obtain w1 where
    "generate_cooling_protocol ''moderate'' 37.1 (?w\<lparr>np_random := skip 12 (const_rng (1/2) 0)\<rparr>)
       = Inr (protocol r, w1)"
    unfolding sev bt by auto
  with cooling_protocol_example [where b = "37.1" and w = ?w and k = 12] have
    pr: "target_temp (protocol r) = 33.25" "cooling_rate (protocol r) = 0.2"
      "baseline_temp (protocol r) = 37.1"
    by simp_all
  have n: "length (arange 240 60) = 4" "arange 240 60 ! Suc 0 = 60"
    by (simp_all add: arange_def upt_rec)
  have tp: "time_points_vitals r = arange 240 60"
    using run_time_points(1) [OF run] by simp
  have i: "1 < length (time_points_vitals r)"
    by (simp add: tp n)
  have phase: "int 1 < py_int (\<bar>baseline_temp (protocol r) - target_temp (protocol r)\<bar>
                               / (cooling_rate (protocol r) / 3600) / real_of_int 60)"
    by (simp add: pr py_int_def)
  have quiet: "gauss (np_random ?w) (pos (np_random ?w) + 21 + 1) = 0"
    by simp
  from cooling_rate_divided_twice [OF run i phase quiet] show ?thesis
    using i by (simp add: run pr tp n clip_def)
qed

section \<open>Missing features at the risk-engine boundary\<close>

lemma require_features_first_missing:
  "filter (\<lambda>c. c \<notin> set (columns df)) cols = m # rest \<Longrightarrow>
   require_features df cols = Inl (KeyError (missing_feature_message m))"
  by (induction cols) (auto split: if_splits)

lemma require_features_present:
  "set cols \<subseteq> set (columns df) \<Longrightarrow> require_features df cols = Inr ()"
  by (induction cols) auto

lemma series_select_missing:
  "\<not> set cols \<subseteq> fst ` set row \<Longrightarrow> \<exists>c. series_select row cols = Inl (KeyError c)"
proof (induction cols)
  case Nil
  then show ?case by simp
next
  case (Cons c cs)
  show ?case
  proof (cases "map_of row c")
    case None
    then show ?thesis by simp
  next
    case (Some v)
    then have "c \<in> fst ` set row"
      by (force dest: map_of_SomeD)
    with Cons.prems have "\<not> set cs \<subseteq> fst ` set row"
      by auto
    from Cons.IH [OF this] Some show ?thesis
      by auto
  qed
qed

lemma compute_event_probability_missing:
  "\<not> set cols \<subseteq> fst ` set row \<Longrightarrow> compute_event_probability m row cols = None"
  using series_select_missing [of cols row]
  by (auto simp: compute_event_probability_def split: option.splits)

text \<open>
  Claim C9, as amended. When required feature columns are absent, \<^verbatim>\<open>build_feature_matrix\<close>
  raises \<^verbatim>\<open>KeyError\<close> naming the first missing column in the order of \<open>feature_cols\<close>
  (and only that one), and it raises no such error when every required column is present.
  The scorecard builder does not propagate a missing feature: when a feature of
  \<open>prognosis_features\<close> is absent from the row, \<^verbatim>\<open>compute_event_probability\<close> catches the
  failure and returns \<^verbatim>\<open>None\<close>, and \<^verbatim>\<open>build_scorecard\<close> still returns a scorecard, with
  every probability \<^verbatim>\<open>None\<close> and every risk level computed from probability 0.0, that is
  \<^verbatim>\<open>LOW\<close>.
\<close>

theorem missing_feature_handling:
  "(filter (\<lambda>c. c \<notin> set (columns df)) feature_cols = m # rest \<longrightarrow>
      build_feature_matrix parse_float df feature_cols
        = Inl (KeyError (missing_feature_message m)))
   \<and> (set feature_cols \<subseteq> set (columns df) \<longrightarrow>
      build_feature_matrix parse_float df feature_cols \<noteq> Inl (KeyError e))
   \<and> (\<not> set (prognosis_features ms) \<subseteq> fst ` set row \<longrightarrow>
      prob_seizure (build_scorecard ms utcnow pid row) = None
      \<and> prob_sepsis (build_scorecard ms utcnow pid row) = None
      \<and> prob_cardiac (build_scorecard ms utcnow pid row) = None
      \<and> prob_renal (build_scorecard ms utcnow pid row) = None
      \<and> prob_prognosis_poor_outcome (build_scorecard ms utcnow pid row) = None
      \<and> risk_seizure (build_scorecard ms utcnow pid row) = ''LOW''
      \<and> risk_sepsis (build_scorecard ms utcnow pid row) = ''LOW''
      \<and> risk_cardiac (build_scorecard ms utcnow pid row) = ''LOW''
      \<and> risk_renal (build_scorecard ms utcnow pid row) = ''LOW''
      \<and> risk_prognosis (build_scorecard ms utcnow pid row) = ''LOW'')"
proof (intro conjI impI)
  assume "filter (\<lambda>c. c \<notin> set (columns df)) feature_cols = m # rest"
  then show "build_feature_matrix parse_float df feature_cols
        = Inl (KeyError (missing_feature_message m))"
    by (simp add: build_feature_matrix_def require_features_first_missing)
next
  assume "set feature_cols \<subseteq> set (columns df)"
  then show "build_feature_matrix parse_float df feature_cols \<noteq> Inl (KeyError e)"
    by (simp add: build_feature_matrix_def require_features_present Let_def)
next
  assume a: "\<not> set (prognosis_features ms) \<subseteq> fst ` set row"
  note p = compute_event_probability_missing [OF a]
  show "prob_seizure (build_scorecard ms utcnow pid row) = None"
    "prob_sepsis (build_scorecard ms utcnow pid row) = None"
    "prob_cardiac (build_scorecard ms utcnow pid row) = None"
    "prob_renal (build_scorecard ms utcnow pid row) = None"
    "prob_prognosis_poor_outcome (build_scorecard ms utcnow pid row) = None"
    "risk_seizure (build_scorecard ms utcnow pid row) = ''LOW''"
    "risk_sepsis (build_scorecard ms utcnow pid row) = ''LOW''"
    "risk_cardiac (build_scorecard ms utcnow pid row) = ''LOW''"
    "risk_renal (build_scorecard ms utcnow pid row) = ''LOW''"
    "risk_prognosis (build_scorecard ms utcnow pid row) = ''LOW''"
    by (simp_all add: build_scorecard_def Let_def p or_zero_def categorize_def)
qed

theorem missing_feature_handling_witness:
  "filter (\<lambda>c. c \<notin> set (columns [(''a'', [Num 1])])) [''a'', ''b'', ''c''] = ''b'' # [''c'']
   \<and> build_feature_matrix (\<lambda>s. None) [(''a'', [Num 1])] [''a'', ''b'', ''c'']
       = Inl (KeyError (missing_feature_message ''b''))
   \<and> set [''a''] \<subseteq> set (columns [(''a'', [Num 1])])
   \<and> build_feature_matrix (\<lambda>s. None) [(''a'', [Num 1])] [''a''] = Inr [[Num 1]]
   \<and> \<not> set (prognosis_features sample_models) \<subseteq> fst ` set [(''lactate'', Num 5)]
   \<and> prob_seizure (build_scorecard sample_models ''2024-01-01T00:00:00'' ''LIVE-001''
         [(''lactate'', Num 5)]) = None
   \<and> risk_seizure (build_scorecard sample_models ''2024-01-01T00:00:00'' ''LIVE-001''
         [(''lactate'', Num 5)]) = ''LOW''"
  using missing_feature_handling [where df = "[(''a'', [Num 1])]"
      and feature_cols = "[''a'', ''b'', ''c'']" and m = "''b''" and rest = "[''c'']"
      and parse_float = "\<lambda>s. None" and ms = sample_models and row = "[(''lactate'', Num 5)]"
      and utcnow = "''2024-01-01T00:00:00''" and pid = "''LIVE-001''"]
  by (simp add: columns_def sample_models_def build_feature_matrix_def nrows_def to_float_def
      Let_def)

text \<open>
  Claim C9 as stated fails. With the columns \<^verbatim>\<open>b\<close> and \<^verbatim>\<open>c\<close> both missing the error
  names \<^verbatim>\<open>b\<close> only; and with the feature \<^verbatim>\<open>ph\<close> missing from the row, models that
  would predict 0.9 (a high risk) are never asked: the scorecard builder returns a
  scorecard with probability \<^verbatim>\<open>None\<close> and risk \<^verbatim>\<open>LOW\<close> instead of failing.
\<close>

theorem missing_feature_counterexample:
  "build_feature_matrix (\<lambda>s. None) [(''a'', [Num 1])] [''a'', ''b'', ''c'']
       = Inl (KeyError (''Required feature '' @ [CHR 0x27] @ ''b'' @ [CHR 0x27]
                          @ '' not found in DataFrame''))
   \<and> prob_seizure (build_scorecard sample_models ''2024-01-01T00:00:00'' ''LIVE-001''
         [(''lactate'', Num 5)]) = None
   \<and> prob_prognosis_poor_outcome (build_scorecard sample_models ''2024-01-01T00:00:00''
         ''LIVE-001'' [(''lactate'', Num 5)]) = None
   \<and> risk_seizure (build_scorecard sample_models ''2024-01-01T00:00:00'' ''LIVE-001''
         [(''lactate'', Num 5)]) = ''LOW''
   \<and> risk_prognosis (build_scorecard sample_models ''2024-01-01T00:00:00'' ''LIVE-001''
         [(''lactate'', Num 5)]) = ''LOW''
   \<and> prob_seizure (build_scorecard sample_models ''2024-01-01T00:00:00'' ''LIVE-001''
         [(''lactate'', Num 5), (''ph'', Num 7)]) = Some 0.9
   \<and> risk_seizure (build_scorecard sample_models ''2024-01-01T00:00:00'' ''LIVE-001''
         [(''lactate'', Num 5), (''ph'', Num 7)]) = ''HIGH''"
  by (simp add: build_feature_matrix_def columns_def missing_feature_message_def
      build_scorecard_def sample_models_def compute_event_probability_def or_zero_def
      categorize_def Let_def)

section \<open>Determinism of batch runs\<close>

lemma generate_cooling_protocol_clock:
  assumes "np_random w = np_random w'"
  shows "map_sum id (\<lambda>(pr, w1). (pr\<lparr>start_time := 0\<rparr>, np_random w1))
           (generate_cooling_protocol s b w)
       = map_sum id (\<lambda>(pr, w1). (pr\<lparr>start_time := 0\<rparr>, np_random w1))
           (generate_cooling_protocol s b w')"
  unfolding generate_cooling_protocol_def Let_def split_def datetime_now_def
  using assms by (simp split: option.splits)

lemma generate_cooling_protocol_cases:
  assumes "np_random w = np_random w'"
  obtains (error) e where "generate_cooling_protocol s b w = Inl e"
      "generate_cooling_protocol s b w' = Inl e"
  | (ok) pr w1 pr' w1' where "generate_cooling_protocol s b w = Inr (pr, w1)"
      "generate_cooling_protocol s b w' = Inr (pr', w1')"
      "target_temp pr' = target_temp pr" "cooling_rate pr' = cooling_rate pr"
      "rewarming_rate pr' = rewarming_rate pr" "baseline_temp pr' = baseline_temp pr"
      "np_random w1' = np_random w1"
proof (cases "generate_cooling_protocol s b w")
  case (Inl e)
  with generate_cooling_protocol_clock [OF assms, of s b]
  have "generate_cooling_protocol s b w' = Inl e"
    by (cases "generate_cooling_protocol s b w'") simp_all
  with Inl show ?thesis
    by (rule error)
next
  case (Inr p)
  obtain pr w1 where p: "p = (pr, w1)"
    by (cases p)
  from Inr p generate_cooling_protocol_clock [OF assms, of s b]
  obtain pr' w1' where r: "generate_cooling_protocol s b w' = Inr (pr', w1')"
    and e: "pr'\<lparr>start_time := 0\<rparr> = pr\<lparr>start_time := 0\<rparr>" "np_random w1' = np_random w1"
    by (cases "generate_cooling_protocol s b w'") auto
  from e(1) have "target_temp (pr'\<lparr>start_time := 0\<rparr>) = target_temp (pr\<lparr>start_time := 0\<rparr>)"
    "cooling_rate (pr'\<lparr>start_time := 0\<rparr>) = cooling_rate (pr\<lparr>start_time := 0\<rparr>)"
    "rewarming_rate (pr'\<lparr>start_time := 0\<rparr>) = rewarming_rate (pr\<lparr>start_time := 0\<rparr>)"
    "baseline_temp (pr'\<lparr>start_time := 0\<rparr>) = baseline_temp (pr\<lparr>start_time := 0\<rparr>)"
    by simp_all
  then have f: "target_temp pr' = target_temp pr" "cooling_rate pr' = cooling_rate pr"
      "rewarming_rate pr' = rewarming_rate pr" "baseline_temp pr' = baseline_temp pr"
    by simp_all
  from Inr p have a: "generate_cooling_protocol s b w = Inr (pr, w1)"
    by simp
  show ?thesis
    by (rule ok [OF a r f e(2)])
qed

lemma complete_patient_run_clock:
  assumes "np_random w = np_random w'"
  shows "map_sum id (\<lambda>r. (frame r, np_random (world_after r)))
           (complete_patient_run pid hours step w)
       = map_sum id (\<lambda>r. (frame r, np_random (world_after r)))
           (complete_patient_run pid hours step w')"
proof (cases "generate_baseline_parameters pid (np_random w)")
  case (Inl e)
  with assms show ?thesis
    by (simp add: complete_patient_run_def)
next
  case (Inr p)
  obtain bp g0 where p: "p = (bp, g0)"
    by (cases p)
  have same: "np_random (w\<lparr>np_random := g0\<rparr>) = np_random (w'\<lparr>np_random := g0\<rparr>)"
    by simp
  from same show ?thesis
  proof (cases rule: generate_cooling_protocol_cases
      [where s = "hie_severity bp" and b = "baseline_rectal_temp bp"])
    case (error e)
    with Inr p assms show ?thesis
      by (simp add: complete_patient_run_def)
  next
    case (ok pr w1 pr' w1')
    from Inr p assms ok show ?thesis
      by (simp add: complete_patient_run_def Let_def split: sum.splits prod.splits)
  qed
qed

lemma generate_complete_patient_dataset_clock:
  assumes "np_random w = np_random w'"
  shows "map_sum id (\<lambda>(df, w1). (df, np_random w1))
           (generate_complete_patient_dataset pid hours step w)
       = map_sum id (\<lambda>(df, w1). (df, np_random w1))
           (generate_complete_patient_dataset pid hours step w')"
  using complete_patient_run_clock [OF assms, of pid hours step]
  by (auto simp: generate_complete_patient_dataset_def split: sum.splits)

lemma batch_loop_clock:
  "np_random w = np_random w' \<Longrightarrow>
   map_sum id (\<lambda>(ds, w1). (ds, np_random w1)) (batch_loop i k hours w)
     = map_sum id (\<lambda>(ds, w1). (ds, np_random w1)) (batch_loop i k hours w')"
proof (induction k arbitrary: i w w')
  case 0
  then show ?case by simp
next
  case (Suc k)
  show ?case
  proof (cases "generate_complete_patient_dataset (patient_name i) hours 5 w")
    case (Inl e)
    with generate_complete_patient_dataset_clock [OF Suc.prems, of "patient_name i" hours 5]
    have "generate_complete_patient_dataset (patient_name i) hours 5 w' = Inl e"
      by (cases "generate_complete_patient_dataset (patient_name i) hours 5 w'") simp_all
    with Inl show ?thesis by simp
  next
    case (Inr p)
    obtain df w1 where p: "p = (df, w1)"
      by (cases p)
    from Inr p generate_complete_patient_dataset_clock [OF Suc.prems, of "patient_name i" hours 5]
    obtain w1' where r: "generate_complete_patient_dataset (patient_name i) hours 5 w'
        = Inr (df, w1')" and e: "np_random w1 = np_random w1'"
      by (cases "generate_complete_patient_dataset (patient_name i) hours 5 w'") auto
    from Suc.IH [OF e, of "Suc i"] Inr p r show ?thesis
      by (auto split: sum.splits)
  qed
qed

lemma generate_batch_dataset_clock:
  assumes "np_random w = np_random w'"
  shows "map_sum id fst (generate_batch_dataset n hours w)
       = map_sum id fst (generate_batch_dataset n hours w')"
  using batch_loop_clock [OF assms, of 0 "nat n" hours]
  by (auto simp: generate_batch_dataset_def split: sum.splits)

lemma fresh_batch_run_eq:
  "fresh_batch_run seeded seed n hours w =
     (if seed < 0 \<or> 2 ^ 32 \<le> seed then Inl ValueError
      else map_sum id fst (generate_batch_dataset n hours (w\<lparr>np_random := seeded seed\<rparr>)))"
  by (auto simp: fresh_batch_run_def init_generator_def split: sum.splits)

text \<open>
  Claim C2. Two runs of the batch generator on freshly constructed instances with the same
  seed, the same number of patients and the same duration return the same result, whatever
  the process states \<open>w\<close> and \<open>w'\<close> in which they start (the random source left by earlier
  code, the wall clock read for \<^verbatim>\<open>start_time\<close>): the same data frame, hence equal row
  counts and equal cells in every column, or the same error. The constructor replaces the
  random source by the one the seed determines, and the clock reading is never written
  into the data frame. For instance a run of 3 patients over 72 hours returns a data frame
  of 2592 rows.
\<close>

theorem batch_runs_deterministic:
  "fresh_batch_run seeded seed num_patients hours w
     = fresh_batch_run seeded seed num_patients hours w'
   \<and> (\<exists>df. fresh_batch_run (\<lambda>s. const_rng (1/2) 0) 42 3 72 w = Inr df
          \<and> fresh_batch_run (\<lambda>s. const_rng (1/2) 0) 42 3 72 w' = Inr df
          \<and> nrows df = 2592)"
proof
  have "np_random (w\<lparr>np_random := seeded seed\<rparr>) = np_random (w'\<lparr>np_random := seeded seed\<rparr>)"
    by simp
  from generate_batch_dataset_clock [OF this, of num_patients hours]
  show d: "fresh_batch_run seeded seed num_patients hours w
     = fresh_batch_run seeded seed num_patients hours w'"
    by (simp only: fresh_batch_run_eq)
  have u: "unit_draws (np_random (w\<lparr>np_random := const_rng (1/2) 0\<rparr>))"
    by simp
  from batch_of_three [OF u] obtain df w1 where
    b: "generate_batch_dataset 3 72 (w\<lparr>np_random := const_rng (1/2) 0\<rparr>) = Inr (df, w1)"
      "nrows df = 3 * 864"
    by (elim exE conjE)
  have f: "fresh_batch_run (\<lambda>s. const_rng (1/2) 0) 42 3 72 w = Inr df"
    by (simp add: fresh_batch_run_eq b(1))
  have "np_random (w\<lparr>np_random := const_rng (1/2) 0\<rparr>)
      = np_random (w'\<lparr>np_random := const_rng (1/2) 0\<rparr>)"
    by simp
  from generate_batch_dataset_clock [OF this, of 3 72]
  have "fresh_batch_run (\<lambda>s. const_rng (1/2) 0) 42 3 72 w'
      = fresh_batch_run (\<lambda>s. const_rng (1/2) 0) 42 3 72 w"
    by (simp only: fresh_batch_run_eq)
  with f have f': "fresh_batch_run (\<lambda>s. const_rng (1/2) 0) 42 3 72 w' = Inr df"
    by simp
  from f f' b(2)
  show "\<exists>df. fresh_batch_run (\<lambda>s. const_rng (1/2) 0) 42 3 72 w = Inr df
          \<and> fresh_batch_run (\<lambda>s. const_rng (1/2) 0) 42 3 72 w' = Inr df
          \<and> nrows df = 2592"
    by simp
qed


end
